theory Spec2Isabelle
  imports Main "HOL-Library.Word"
begin

unbundle bit_operations_syntax

section \<open>JavaScript values used by the bindings\<close>

text \<open>
  Strings are lists of code units; every string the bindings handle (UUID texts, hexadecimal
  addresses, property names) is ASCII, and a \<^typ>\<open>char\<close> holds one code unit below 256.
  An exception is a value of \<open>js_error\<close>: \<open>Error msg\<close> is \<^verbatim>\<open>new Error(msg)\<close> (also the
  error object a native asynchronous call hands to its callback), a \<open>ReferenceError\<close> is what
  strict-mode code raises when it evaluates an identifier that no enclosing scope binds, a
  \<open>TypeError\<close> what a call of a missing method raises.
\<close>

datatype js_error = Error string | ReferenceError string | TypeError string

text \<open>\<^verbatim>\<open>String.prototype.toLowerCase\<close> on code units below 256: the ASCII capitals and the
  Latin-1 capitals (U+00C0 to U+00DE without the multiplication sign) move up by 32.\<close>

definition toLowerChar :: "char \<Rightarrow> char" where
  "toLowerChar c =
     (let n = (of_char c :: nat)
      in if (65 \<le> n \<and> n \<le> 90) \<or> (192 \<le> n \<and> n \<le> 222 \<and> n \<noteq> 215)
         then char_of (n + 32) else c)"

definition toLowerCase :: "string \<Rightarrow> string" where
  "toLowerCase s = map toLowerChar s"

text \<open>\<^verbatim>\<open>s.substr(start, len)\<close> for non-negative arguments.\<close>

definition substr :: "string \<Rightarrow> nat \<Rightarrow> nat \<Rightarrow> string" where
  "substr s start len = take len (drop start s)"

section \<open>Regular expression of \<^verbatim>\<open>formatUuid\<close>\<close>

text \<open>
  The pattern \<^verbatim>\<open>/{0000[0-9A-F]{4}-0000-1000-8000-00805F9B34FB}/i\<close> is a sequence of atoms that
  each consume exactly one code unit: a literal character or the class \<^verbatim>\<open>[0-9A-F]\<close>.
  Under the \<^verbatim>\<open>i\<close> flag two code units match when their canonical (upper-case) forms agree;
  all pattern characters are ASCII, and no code unit outside ASCII canonicalises to an ASCII
  one, so only the ASCII letters need folding here.
  \<^verbatim>\<open>test\<close> is not anchored: it succeeds when the pattern matches at any offset.
\<close>

datatype atom = Lit char | HexClass

definition canonicalize :: "char \<Rightarrow> char" where
  "canonicalize c =
     (let n = (of_char c :: nat) in if 97 \<le> n \<and> n \<le> 122 then char_of (n - 32) else c)"

fun atomMatches :: "atom \<Rightarrow> char \<Rightarrow> bool" where
  "atomMatches (Lit p) c = (canonicalize c = canonicalize p)"
| "atomMatches HexClass c = (canonicalize c \<in> set ''0123456789ABCDEF'')"

fun matchHere :: "atom list \<Rightarrow> string \<Rightarrow> bool" where
  "matchHere [] s = True"
| "matchHere (a # as) [] = False"
| "matchHere (a # as) (c # cs) = (atomMatches a c \<and> matchHere as cs)"

fun regexTest :: "atom list \<Rightarrow> string \<Rightarrow> bool" where
  "regexTest p [] = matchHere p []"
| "regexTest p (c # cs) = (matchHere p (c # cs) \<or> regexTest p cs)"

definition baseUuidPattern :: "atom list" where
  "baseUuidPattern =
     Lit CHR ''{'' # map Lit ''0000'' @ replicate 4 HexClass
       @ map Lit ''-0000-1000-8000-00805F9B34FB}''"

section \<open>\<^verbatim>\<open>formatUuid\<close> (bindings.js)\<close>

text \<open>
  \<^verbatim>\<open>if (!uuid) return uuid;\<close> the empty string is the falsy string.
  \<^verbatim>\<open>else if (/{0000...}/i.test(uuid)) return uuid.substr(5, 4).toLowerCase();\<close>
  \<^verbatim>\<open>else return uuid.replace(/[-{}]/g, '').toLowerCase();\<close>
\<close>

definition formatUuid :: "string \<Rightarrow> string" where
  "formatUuid uuid =
     (if uuid = [] then uuid
      else if regexTest baseUuidPattern uuid then toLowerCase (substr uuid 5 4)
      else toLowerCase (filter (\<lambda>c. c \<notin> set ''-{}'') uuid))"

section \<open>\<^verbatim>\<open>formatBluetoothAddress\<close> (bindings.js)\<close>

definition hexDigit :: "nat \<Rightarrow> char" where
  "hexDigit d = ''0123456789abcdef'' ! d"

text \<open>\<^verbatim>\<open>Number.prototype.toString(16)\<close> of a non-negative integer: lower-case digits, most
  significant first, no leading zero.\<close>

function toString16 :: "nat \<Rightarrow> string" where
  "toString16 n =
     (if n < 16 then [hexDigit n] else toString16 (n div 16) @ [hexDigit (n mod 16)])"
  by pat_completeness auto
termination
  by (relation "measure id") auto

declare toString16.simps [simp del]

text \<open>\<^verbatim>\<open>while (formattedAddress.length < 12) formattedAddress = '0' + formattedAddress;\<close>\<close>

function padAddress :: "string \<Rightarrow> string" where
  "padAddress s = (if length s < 12 then padAddress (CHR ''0'' # s) else s)"
  by pat_completeness auto
termination
  by (relation "measure (\<lambda>s. 12 - length s)") auto

declare padAddress.simps [simp del]

definition formatBluetoothAddress :: "nat \<Rightarrow> string" where
  "formatBluetoothAddress address =
     (if address = 0 then ''null''
      else let f = padAddress (toString16 address)
           in substr f 0 2 @ '':'' @ substr f 2 2 @ '':'' @ substr f 4 2 @ '':''
              @ substr f 6 2 @ '':'' @ substr f 8 2 @ '':'' @ substr f 10 2)"

section \<open>\<^verbatim>\<open>characteristicPropertiesToStrings\<close> (bindings.js)\<close>

text \<open>
  The members of the platform enumeration \<^verbatim>\<open>GattCharacteristicProperties\<close> come from the
  Windows Runtime projection, which is not part of the sources; the function takes the
  enumeration as a parameter (member \<open>x\<close> is the field \<open>propX\<close>). \<open>winrtGattCharacteristicProperties\<close> holds the values the
  Windows Runtime documents for it. \<^verbatim>\<open>props & flag\<close> is the bitwise conjunction of two 32-bit
  integers, truthy when it is not zero.
\<close>

record GattCharacteristicProperties =
  propBroadcast :: "32 word"
  propRead :: "32 word"
  propWriteWithoutResponse :: "32 word"
  propWrite :: "32 word"
  propNotify :: "32 word"
  propIndicate :: "32 word"
  propAuthenticatedSignedWrites :: "32 word"
  propExtendedProperties :: "32 word"

definition winrtGattCharacteristicProperties :: GattCharacteristicProperties where
  "winrtGattCharacteristicProperties =
     \<lparr>propBroadcast = 0x01, propRead = 0x02, propWriteWithoutResponse = 0x04, propWrite = 0x08,
      propNotify = 0x10, propIndicate = 0x20, propAuthenticatedSignedWrites = 0x40,
      propExtendedProperties = 0x80\<rparr>"

definition pushIf :: "bool \<Rightarrow> string \<Rightarrow> string list \<Rightarrow> string list" where
  "pushIf b s strings = (if b then strings @ [s] else strings)"

definition characteristicPropertiesToStrings ::
  "GattCharacteristicProperties \<Rightarrow> 32 word \<Rightarrow> string list" where
  "characteristicPropertiesToStrings G props =
     (let strings = [];
          strings = pushIf (props AND propBroadcast G \<noteq> 0) ''broadcast'' strings;
          strings = pushIf (props AND propRead G \<noteq> 0) ''read'' strings;
          strings = pushIf (props AND propWriteWithoutResponse G \<noteq> 0) ''writeWithoutResponse'' strings;
          strings = pushIf (props AND propWrite G \<noteq> 0) ''write'' strings;
          strings = pushIf (props AND propNotify G \<noteq> 0) ''notify'' strings;
          strings = pushIf (props AND propIndicate G \<noteq> 0) ''indicate'' strings;
          strings = pushIf (props AND propBroadcast G \<noteq> 0) ''authenticatedSignedWrites'' strings;
          strings = pushIf (props AND propExtendedProperties G \<noteq> 0) ''extendedProperties'' strings
      in strings)"

section \<open>Resource tracking (rt-utils.js)\<close>

text \<open>
  A tracked object is known by its identity (\<^verbatim>\<open>Object.is\<close>; a handle: the kind of the
  native object and its number) and by whether it has a \<^verbatim>\<open>close\<close> function. The module state is \<^verbatim>\<open>disposableMap\<close> and the keep-alive counter with
  its interval timer; \<open>closeLog\<close> records the calls of \<^verbatim>\<open>close()\<close> in the order they are made.
\<close>

datatype handle = DeviceHandle nat | ServiceHandle nat | OtherHandle nat

datatype js_obj = JsObj (objId: handle) (hasClose: bool)

record rt_state =
  disposableMap :: "string \<rightharpoonup> js_obj list"
  keepAliveIntervalCount :: int
  keepAliveInterval :: bool
  closeLog :: "js_obj list"

definition rt_init :: rt_state where
  "rt_init = \<lparr>disposableMap = Map.empty, keepAliveIntervalCount = 0,
              keepAliveInterval = False, closeLog = []\<rparr>"

text \<open>The objects tracked under a key; none when the key has no list.\<close>

definition tracked :: "rt_state \<Rightarrow> string \<Rightarrow> js_obj list" where
  "tracked rt key = (case disposableMap rt key of None \<Rightarrow> [] | Some l \<Rightarrow> l)"

text \<open>The loop \<^verbatim>\<open>for (i ...) if (Object.is(obj, disposableList[i])) return obj;\<close>\<close>

fun alreadyTracked :: "js_obj \<Rightarrow> js_obj list \<Rightarrow> bool" where
  "alreadyTracked obj [] = False"
| "alreadyTracked obj (disposable # rest) =
     (if objId obj = objId disposable then True else alreadyTracked obj rest)"

text \<open>\<^verbatim>\<open>trackDisposable(key, obj)\<close>; \<open>None\<close> is a falsy \<^verbatim>\<open>obj\<close>. The exception is raised
  before the map is touched.\<close>

definition trackDisposable :: "string \<Rightarrow> js_obj option \<Rightarrow> rt_state \<Rightarrow> js_error + rt_state" where
  "trackDisposable key obj rt =
     (case obj of
        None \<Rightarrow> Inr rt
      | Some ob \<Rightarrow>
          if \<not> hasClose ob then Inl (Error ''Object does not have a close function.'')
          else let disposableList = tracked rt key;
                   rt1 = rt\<lparr>disposableMap := (disposableMap rt)(key \<mapsto> disposableList)\<rparr>
               in if alreadyTracked ob disposableList then Inr rt1
                  else Inr (rt1\<lparr>disposableMap := (disposableMap rt1)(key \<mapsto> disposableList @ [ob])\<rparr>))"

text \<open>\<^verbatim>\<open>trackDisposables(key, array)\<close>: \<^verbatim>\<open>forEach\<close> stops at the first exception; the
  objects tracked before it stay tracked.\<close>

fun trackDisposables :: "string \<Rightarrow> js_obj option list \<Rightarrow> rt_state \<Rightarrow> rt_state \<times> js_error option" where
  "trackDisposables key [] rt = (rt, None)"
| "trackDisposables key (obj # rest) rt =
     (case trackDisposable key obj rt of
        Inl e \<Rightarrow> (rt, Some e)
      | Inr rt1 \<Rightarrow> trackDisposables key rest rt1)"

text \<open>The loop of \<^verbatim>\<open>disposeAll\<close>: \<^verbatim>\<open>disposableList[i].close()\<close> for \<open>i\<close> from 0 upwards.\<close>

fun closeEach :: "js_obj list \<Rightarrow> rt_state \<Rightarrow> rt_state" where
  "closeEach [] rt = rt"
| "closeEach (disposable # rest) rt = closeEach rest (rt\<lparr>closeLog := closeLog rt @ [disposable]\<rparr>)"

definition disposeAll :: "string \<Rightarrow> rt_state \<Rightarrow> rt_state" where
  "disposeAll key rt =
     (case disposableMap rt key of
        None \<Rightarrow> rt
      | Some disposableList \<Rightarrow> closeEach disposableList rt)"

text \<open>\<^verbatim>\<open>keepAlive(k)\<close>\<close>

definition keepAlive :: "bool \<Rightarrow> rt_state \<Rightarrow> rt_state" where
  "keepAlive k rt =
     (if k then
        (let rt1 = rt\<lparr>keepAliveIntervalCount := keepAliveIntervalCount rt + 1\<rparr>
         in if keepAliveIntervalCount rt1 = 1 then rt1\<lparr>keepAliveInterval := True\<rparr> else rt1)
      else
        (let rt1 = rt\<lparr>keepAliveIntervalCount := keepAliveIntervalCount rt - 1\<rparr>
         in if keepAliveIntervalCount rt1 = 0 then rt1\<lparr>keepAliveInterval := False\<rparr> else rt1))"

section \<open>The transport layer as the bindings see it\<close>

text \<open>
  The Windows Runtime objects are outside the sources. A promisified native call either
  hands an error to its callback (\<open>Inl\<close>, the promise is rejected with it) or a result
  (\<open>Inr\<close>). Each object carries what the transport answers to the calls made on it; the
  calls themselves are recorded in \<open>transportLog\<close>.
\<close>

type_synonym 'a async = "js_error + 'a"

datatype GattCommunicationStatus = Success | Unreachable | ProtocolError | AccessDenied

datatype BluetoothCacheMode = Cached | Uncached

datatype GattClientCharacteristicConfigurationDescriptorValue = CccdNone | CccdNotify

datatype GattDescriptor = GattDescriptor
  (d_id: nat)
  (d_uuid: string)
  (d_writeValueWithResultAsync: "GattCommunicationStatus async")

datatype GattCharacteristic = GattCharacteristic
  (c_id: nat)
  (c_uuid: string)
  (c_characteristicProperties: "32 word")
  (c_getDescriptorsAsync:
     "BluetoothCacheMode \<Rightarrow> (GattCommunicationStatus \<times> GattDescriptor list) async")
  (c_writeCccdAsync:
     "GattClientCharacteristicConfigurationDescriptorValue \<Rightarrow> GattCommunicationStatus async")
  (c_writeValueWithResultAsync: "GattCommunicationStatus async")

datatype GattDeviceService = GattDeviceService
  (s_id: nat)
  (s_uuid: string)
  (s_getCharacteristicsAsync:
     "BluetoothCacheMode \<Rightarrow> (GattCommunicationStatus \<times> GattCharacteristic list) async")

datatype BluetoothLEDevice = BluetoothLEDevice
  (dev_id: nat)
  (dev_getGattServicesAsync:
     "BluetoothCacheMode \<Rightarrow> (GattCommunicationStatus \<times> GattDeviceService list) async")

datatype transport_call =
    GetGattServices nat BluetoothCacheMode
  | GetCharacteristics nat BluetoothCacheMode
  | GetDescriptors nat BluetoothCacheMode
  | WriteCccd nat GattClientCharacteristicConfigurationDescriptorValue
  | AddValueChangedListener nat
  | RemoveValueChangedListener nat
  | WriteCharacteristicValue nat "8 word list"
  | WriteDescriptorValue nat "8 word list"

text \<open>Devices and services as the resource tracker sees them: both have a \<^verbatim>\<open>close\<close>
  function.\<close>

definition serviceObj :: "GattDeviceService \<Rightarrow> js_obj option" where
  "serviceObj s = Some (JsObj (ServiceHandle (s_id s)) True)"

definition deviceObj :: "BluetoothLEDevice \<Rightarrow> js_obj option" where
  "deviceObj d = Some (JsObj (DeviceHandle (dev_id d)) True)"

section \<open>State of the bindings\<close>

text \<open>
  The record built in \<^verbatim>\<open>_onAdvertisementWatcherReceived\<close>. \<open>None\<close> is \<^verbatim>\<open>null\<close> (or, for
  \<open>connectable\<close> and \<open>manufacturerData\<close>, \<^verbatim>\<open>undefined\<close>). The three caches are objects used
  as maps from key strings; the keys are formatted UUIDs joined by \<^verbatim>\<open>/\<close>, the keys of the
  device map are device identifiers, and none of them names a property that every object
  inherits.
\<close>

record deviceRecord =
  name :: "string option"
  address :: nat
  formattedAddress :: string
  addressType :: string
  connectable :: "bool option"
  serviceUuids :: "string list"
  txPowerLevel :: "int option"
  manufacturerData :: "8 word list option"
  device :: "BluetoothLEDevice option"
  serviceMap :: "string \<rightharpoonup> GattDeviceService"
  characteristicMap :: "string \<rightharpoonup> GattCharacteristic"
  descriptorMap :: "string \<rightharpoonup> GattDescriptor"

text \<open>The value-changed listener that \<^verbatim>\<open>notify\<close> creates reports under the three
  identifiers it was created for.\<close>

datatype listener = ValueChangedListener string string string

record NobleBindings =
  deviceMap :: "string \<rightharpoonup> deviceRecord"
  listenerMap :: "string \<rightharpoonup> listener"
  rt :: rt_state
  transportLog :: "transport_call list"

definition NobleBindings_init :: NobleBindings where
  "NobleBindings_init =
     \<lparr>deviceMap = Map.empty, listenerMap = Map.empty, rt = rt_init, transportLog = []\<rparr>"

definition logCall :: "transport_call \<Rightarrow> NobleBindings \<Rightarrow> NobleBindings" where
  "logCall c st = st\<lparr>transportLog := transportLog st @ [c]\<rparr>"

text \<open>The \<^verbatim>\<open>advertisement\<close> object carried by the \<^verbatim>\<open>discover\<close> event (its \<^verbatim>\<open>serviceData\<close> is
  always the empty array) and the events the modelled operations emit. The last argument of
  \<^verbatim>\<open>notify\<close> is the requested state or the error; \<^verbatim>\<open>connect\<close> carries \<^verbatim>\<open>null\<close> or the error,
  \<^verbatim>\<open>write\<close> and \<^verbatim>\<open>writeValue\<close> an error or nothing.\<close>

datatype advertisement = Advertisement
  (adv_localName: "string option")
  (adv_txPowerLevel: "int option")
  (adv_manufacturerData: "8 word list option")
  (adv_serviceUuids: "string list")

datatype event =
    DiscoverEvent string string string "bool option" advertisement int
  | ConnectEvent string "js_error option"
  | NotifyEvent string string string "js_error + bool"
  | WriteEvent string string string "js_error option"
  | WriteValueEvent string string string string "js_error option"

text \<open>How a function that returns a promise ends: it throws before returning, or its
  promise is rejected, or its promise is resolved.\<close>

datatype 'a outcome = Threw js_error | Rejected js_error | Resolved 'a

section \<open>\<^verbatim>\<open>_onAdvertisementWatcherReceived\<close> (bindings.js)\<close>

text \<open>
  The event arguments of the advertisement watcher. The fields \<open>advManufacturerData\<close> and
  \<open>advServiceUuids\<close> are \<^verbatim>\<open>e.advertisement.manufacturerData\<close> and
  \<^verbatim>\<open>e.advertisement.serviceUuids\<close>; \<open>companyData\<close> is the \<^verbatim>\<open>data\<close> of a manufacturer section.
  \<open>OtherAdvertisementType\<close> stands for every value of the type field that is none of the five
  members the handler names.
\<close>

datatype BluetoothLEAdvertisementType =
    ConnectableUndirected | ConnectableDirected | ScannableUndirected
  | NonConnectableUndirected | ScanResponse | OtherAdvertisementType

record BluetoothLEAdvertisementDataSection =
  dataType :: "8 word"
  data :: "8 word list"

record BluetoothLEManufacturerData =
  companyId :: "16 word"
  companyData :: "8 word list"

record BluetoothLEAdvertisement =
  localName :: string
  dataSections :: "BluetoothLEAdvertisementDataSection list"
  advManufacturerData :: "BluetoothLEManufacturerData list"
  advServiceUuids :: "string list"

record BluetoothLEAdvertisementReceivedEventArgs =
  bluetoothAddress :: nat
  advertisementType :: BluetoothLEAdvertisementType
  rawSignalStrengthInDBm :: int
  advertisement :: BluetoothLEAdvertisement

text \<open>\<^verbatim>\<open>BluetoothLEAdvertisementDataTypes.txPowerLevel\<close>: the platform's value, the assigned
  number of the TX power level section.\<close>

definition txPowerLevelDataType :: "8 word" where
  "txPowerLevelDataType = 0x0A"

text \<open>\<^verbatim>\<open>DataReader.fromBuffer(b).readByte()\<close>: the first byte as a number from 0 to 255; on an
  empty buffer the platform call raises.\<close>

definition readByte :: "8 word list \<Rightarrow> js_error + int" where
  "readByte b = (case b of [] \<Rightarrow> Inl (Error ''The operation attempted to access data outside the valid range'')
                 | x # _ \<Rightarrow> Inr (uint x))"

text \<open>Lines 472 to 481: \<^verbatim>\<open>txPowerLevel\<close> is \<^verbatim>\<open>null\<close> unless a section of the TX power
  type is found; \<^verbatim>\<open>if (txPowerLevel >= 128) txPowerLevel -= 256;\<close>\<close>

definition readTxPowerLevel ::
  "BluetoothLEAdvertisementDataSection list \<Rightarrow> js_error + int option" where
  "readTxPowerLevel sections =
     (case find (\<lambda>ds. dataType ds = txPowerLevelDataType) sections of
        None \<Rightarrow> Inr None
      | Some txPowerDataSection \<Rightarrow>
          (case readByte (data txPowerDataSection) of
             Inl ex \<Rightarrow> Inl ex
           | Inr b \<Rightarrow> Inr (Some (if b \<ge> 128 then b - 256 else b))))"

text \<open>The \<^verbatim>\<open>switch\<close> on the advertisement type; \<open>None\<close> is \<^verbatim>\<open>undefined\<close>.\<close>

fun connectableOf :: "BluetoothLEAdvertisementType \<Rightarrow> bool option" where
  "connectableOf ConnectableUndirected = Some True"
| "connectableOf ConnectableDirected = Some True"
| "connectableOf NonConnectableUndirected = Some False"
| "connectableOf ScannableUndirected = Some False"
| "connectableOf _ = None"

text \<open>\<^verbatim>\<open>serviceUuids.forEach(...)\<close>: push each UUID that \<^verbatim>\<open>indexOf\<close> does not find.\<close>

fun pushServiceUuids :: "string list \<Rightarrow> string list \<Rightarrow> string list" where
  "pushServiceUuids recordUuids [] = recordUuids"
| "pushServiceUuids recordUuids (serviceUuid # rest) =
     pushServiceUuids
       (if serviceUuid \<notin> set recordUuids then recordUuids @ [serviceUuid] else recordUuids) rest"

text \<open>The manufacturer data stored in the record: the company identifier as two bytes,
  low byte first (\<^verbatim>\<open>writeUInt16LE\<close>), followed by the section's data.\<close>

definition manufacturerBuffer :: "BluetoothLEManufacturerData \<Rightarrow> 8 word list" where
  "manufacturerBuffer m = [ucast (companyId m), ucast (drop_bit 8 (companyId m))] @ companyData m"

definition deviceUuidOf :: "BluetoothLEAdvertisementReceivedEventArgs \<Rightarrow> string" where
  "deviceUuidOf e = filter (\<lambda>c. c \<noteq> CHR '':'') (formatBluetoothAddress (bluetoothAddress e))"

definition newDeviceRecord :: "BluetoothLEAdvertisementReceivedEventArgs \<Rightarrow> deviceRecord" where
  "newDeviceRecord e =
     \<lparr>name = None,
      address = bluetoothAddress e,
      formattedAddress = formatBluetoothAddress (bluetoothAddress e),
      addressType = (if bluetoothAddress e \<ge> 3 * 2 ^ 46 then ''random'' else ''public''),
      connectable = connectableOf (advertisementType e),
      serviceUuids = [],
      txPowerLevel = None,
      manufacturerData = None,
      device = None,
      serviceMap = Map.empty,
      characteristicMap = Map.empty,
      descriptorMap = Map.empty\<rparr>"

text \<open>Lines 501 to 526: the merge of one packet into the record. \<^verbatim>\<open>if (txPowerLevel)\<close> is
  a truthiness test: \<^verbatim>\<open>null\<close> and the number 0 are falsy.\<close>

definition mergeAdvertisement ::
  "BluetoothLEAdvertisementReceivedEventArgs \<Rightarrow> int option \<Rightarrow> deviceRecord \<Rightarrow> deviceRecord" where
  "mergeAdvertisement e txPower r =
     (let r = (if localName (advertisement e) \<noteq> [] then r\<lparr>name := Some (localName (advertisement e))\<rparr> else r);
          r = (case advManufacturerData (advertisement e) of
                 [] \<Rightarrow> r
               | m # _ \<Rightarrow> r\<lparr>manufacturerData := Some (manufacturerBuffer m)\<rparr>);
          r = r\<lparr>serviceUuids := pushServiceUuids (serviceUuids r) (advServiceUuids (advertisement e))\<rparr>;
          r = (if txPower \<noteq> None \<and> txPower \<noteq> Some 0 then r\<lparr>txPowerLevel := txPower\<rparr> else r)
      in r)"

definition advertisementOf :: "deviceRecord \<Rightarrow> advertisement" where
  "advertisementOf r =
     Advertisement (name r) (txPowerLevel r) (manufacturerData r) (serviceUuids r)"

text \<open>The handler. Reading the TX power byte is the only step that can raise, and it comes
  before the device map is read or written.\<close>

definition onAdvertisementWatcherReceived ::
  "NobleBindings \<Rightarrow> BluetoothLEAdvertisementReceivedEventArgs \<Rightarrow> js_error + (NobleBindings \<times> event list)" where
  "onAdvertisementWatcherReceived st e =
     (let address = formatBluetoothAddress (bluetoothAddress e);
          deviceUuid = deviceUuidOf e;
          rssi = rawSignalStrengthInDBm e
      in case readTxPowerLevel (dataSections (advertisement e)) of
           Inl ex \<Rightarrow> Inl ex
         | Inr txPower \<Rightarrow>
             (let r0 = (case deviceMap st deviceUuid of None \<Rightarrow> newDeviceRecord e | Some r \<Rightarrow> r);
                  r = mergeAdvertisement e txPower r0;
                  st1 = st\<lparr>deviceMap := (deviceMap st)(deviceUuid \<mapsto> r)\<rparr>
              in Inr (st1,
                      if advertisementType e = ScanResponse
                      then [DiscoverEvent deviceUuid address (addressType r) (connectable r)
                              (advertisementOf r) rssi]
                      else [])))"

text \<open>A run of the handler over the packets the watcher delivers, in order. It records,
  for each packet, the state after it and the events emitted while it was handled, and stops
  at the first packet whose handling raises.\<close>

fun receiveAll ::
  "NobleBindings \<Rightarrow> BluetoothLEAdvertisementReceivedEventArgs list
     \<Rightarrow> js_error + (NobleBindings \<times> event list) list" where
  "receiveAll st [] = Inr []"
| "receiveAll st (e # es) =
     (case onAdvertisementWatcherReceived st e of
        Inl ex \<Rightarrow> Inl ex
      | Inr (st1, evs) \<Rightarrow>
          (case receiveAll st1 es of
             Inl ex \<Rightarrow> Inl ex
           | Inr tr \<Rightarrow> Inr ((st1, evs) # tr)))"

section \<open>\<^verbatim>\<open>connect\<close> (bindings.js)\<close>

text \<open>
  An operation of the bindings returns nothing; it may throw before it returns, and
  otherwise the chain of promises it started ends resolved, or rejected with nobody left to
  handle the rejection. The result of an operation is the state, the events emitted and that
  ending. An operation is followed to its end: the callbacks of its promises run in their
  order, and no other operation or event comes in between.

  \<open>fromBluetoothAddressAsync\<close> is what the platform answers for the record's address: an
  error, or a device, or \<^verbatim>\<open>null\<close> (\<open>None\<close>), on which the callback's \<^verbatim>\<open>device.name\<close> raises.
  \<^verbatim>\<open>!deviceRecord.connectable\<close> holds for \<^verbatim>\<open>false\<close> and for \<^verbatim>\<open>undefined\<close>.
\<close>

definition connect ::
  "NobleBindings \<Rightarrow> string \<Rightarrow> BluetoothLEDevice option async
     \<Rightarrow> NobleBindings \<times> event list \<times> unit outcome" where
  "connect st deviceUuid fromBluetoothAddressAsync =
     (case deviceMap st deviceUuid of
        None \<Rightarrow> (st, [], Threw (Error (''Invalid or unknown device UUID: '' @ deviceUuid)))
      | Some deviceRecord \<Rightarrow>
          if connectable deviceRecord \<noteq> Some True
          then (st, [], Threw (Error (''Device is not connectable: '' @ formattedAddress deviceRecord)))
          else (case fromBluetoothAddressAsync of
                  Inl ex \<Rightarrow> (st, [ConnectEvent deviceUuid (Some ex)], Resolved ())
                | Inr None \<Rightarrow>
                    (st, [ConnectEvent deviceUuid
                            (Some (TypeError ''Cannot read property 'name' of null''))], Resolved ())
                | Inr (Some dev) \<Rightarrow>
                    (case trackDisposable deviceUuid (deviceObj dev) (rt st) of
                       Inl ex \<Rightarrow> (st, [ConnectEvent deviceUuid (Some ex)], Resolved ())
                     | Inr rt1 \<Rightarrow>
                         (st\<lparr>rt := rt1,
                             deviceMap := (deviceMap st)(deviceUuid \<mapsto> deviceRecord\<lparr>device := Some dev\<rparr>)\<rparr>,
                          [ConnectEvent deviceUuid None], Resolved ()))))"

section \<open>Cached resolution of services, characteristics and descriptors (bindings.js)\<close>

text \<open>\<^verbatim>\<open>checkCommunicationResult\<close>: the exception it throws, if any.\<close>

definition checkCommunicationResult :: "string \<Rightarrow> GattCommunicationStatus \<Rightarrow> js_error option" where
  "checkCommunicationResult deviceUuid status =
     (if status = Unreachable then Some (Error (''Device unreachable: '' @ deviceUuid))
      else if status = ProtocolError
      then Some (Error (''Protocol error communicating with device: '' @ deviceUuid))
      else None)"

definition updateRecord ::
  "string \<Rightarrow> (deviceRecord \<Rightarrow> deviceRecord) \<Rightarrow> NobleBindings \<Rightarrow> NobleBindings" where
  "updateRecord deviceUuid f st =
     (case deviceMap st deviceUuid of
        None \<Rightarrow> st
      | Some r \<Rightarrow> st\<lparr>deviceMap := (deviceMap st)(deviceUuid \<mapsto> f r)\<rparr>)"

text \<open>\<^verbatim>\<open>_getCachedServiceAsync\<close>. The two \<^verbatim>\<open>throw\<close> statements run before a promise exists;
  everything after the native call runs in the promise's callback.\<close>

definition getCachedServiceAsync ::
  "NobleBindings \<Rightarrow> string \<Rightarrow> string \<Rightarrow> NobleBindings \<times> GattDeviceService outcome" where
  "getCachedServiceAsync st deviceUuid serviceUuid =
     (case deviceMap st deviceUuid of
        None \<Rightarrow> (st, Threw (Error (''Invalid or unknown device UUID: '' @ deviceUuid)))
      | Some deviceRecord \<Rightarrow>
          (case serviceMap deviceRecord serviceUuid of
             Some service \<Rightarrow> (st, Resolved service)
           | None \<Rightarrow>
               (case device deviceRecord of
                  None \<Rightarrow> (st, Threw (Error (''Device is not connected. UUID: '' @ deviceUuid)))
                | Some dev \<Rightarrow>
                    (let st1 = logCall (GetGattServices (dev_id dev) Cached) st
                     in case dev_getGattServicesAsync dev Cached of
                          Inl ex \<Rightarrow> (st1, Rejected ex)
                        | Inr (status, services) \<Rightarrow>
                            (case checkCommunicationResult deviceUuid status of
                               Some ex \<Rightarrow> (st1, Rejected ex)
                             | None \<Rightarrow>
                                 (case trackDisposables deviceUuid (map serviceObj services) (rt st1) of
                                    (rt1, Some ex) \<Rightarrow> (st1\<lparr>rt := rt1\<rparr>, Rejected ex)
                                  | (rt1, None) \<Rightarrow>
                                      (let st2 = st1\<lparr>rt := rt1\<rparr>
                                       in case find (\<lambda>s. formatUuid (s_uuid s) = serviceUuid) services of
                                            None \<Rightarrow>
                                              (st2, Rejected (Error (''Service '' @ serviceUuid
                                                 @ '' not found for device '' @ deviceUuid)))
                                          | Some service \<Rightarrow>
                                              (updateRecord deviceUuid
                                                 (\<lambda>r. r\<lparr>serviceMap := (serviceMap r)(serviceUuid \<mapsto> service)\<rparr>) st2,
                                               Resolved service))))))))"

text \<open>\<^verbatim>\<open>_getCachedCharacteristicAsync\<close>: the call of \<^verbatim>\<open>_getCachedServiceAsync\<close> is made before
  the function returns, so what that call throws, this function throws.\<close>

definition getCachedCharacteristicAsync ::
  "NobleBindings \<Rightarrow> string \<Rightarrow> string \<Rightarrow> string \<Rightarrow> NobleBindings \<times> GattCharacteristic outcome" where
  "getCachedCharacteristicAsync st deviceUuid serviceUuid characteristicUuid =
     (case deviceMap st deviceUuid of
        None \<Rightarrow> (st, Threw (Error (''Invalid or unknown device UUID: '' @ deviceUuid)))
      | Some deviceRecord \<Rightarrow>
          (let characteristicKey = serviceUuid @ ''/'' @ characteristicUuid
           in case characteristicMap deviceRecord characteristicKey of
                Some characteristic \<Rightarrow> (st, Resolved characteristic)
              | None \<Rightarrow>
                  (case getCachedServiceAsync st deviceUuid serviceUuid of
                     (st1, Threw ex) \<Rightarrow> (st1, Threw ex)
                   | (st1, Rejected ex) \<Rightarrow> (st1, Rejected ex)
                   | (st1, Resolved service) \<Rightarrow>
                       (let st2 = logCall (GetCharacteristics (s_id service) Cached) st1
                        in case s_getCharacteristicsAsync service Cached of
                             Inl ex \<Rightarrow> (st2, Rejected ex)
                           | Inr (status, characteristics) \<Rightarrow>
                               (case checkCommunicationResult deviceUuid status of
                                  Some ex \<Rightarrow> (st2, Rejected ex)
                                | None \<Rightarrow>
                                    (case find (\<lambda>c. formatUuid (c_uuid c) = characteristicUuid) characteristics of
                                       None \<Rightarrow>
                                         (st2, Rejected (Error (''Service '' @ serviceUuid
                                            @ '' characteristic '' @ characteristicUuid
                                            @ '' not found for device '' @ deviceUuid)))
                                     | Some characteristic \<Rightarrow>
                                         (updateRecord deviceUuid
                                            (\<lambda>r. r\<lparr>characteristicMap :=
                                                      (characteristicMap r)(characteristicKey \<mapsto> characteristic)\<rparr>) st2,
                                          Resolved characteristic)))))))"

text \<open>
  \<^verbatim>\<open>_getCachedDescriptorAsync\<close>. The callback given to \<^verbatim>\<open>then\<close> is
  \<^verbatim>\<open>function (service) { return rt.promisify(characteristic.getDescriptorsAsync, characteristic)(...)\<close>:
  the resolved characteristic is bound to the parameter \<^verbatim>\<open>service\<close>, and the body reads the
  identifier \<^verbatim>\<open>characteristic\<close>. \<open>descriptorCallbackScope\<close> lists the identifiers that the
  callback can see: its parameter, the variables and parameters of the enclosing function,
  and the variables of the module (the properties of the global object, such as \<^verbatim>\<open>Windows\<close>
  or \<^verbatim>\<open>Promise\<close>, are left out; none of them has a name read here). An identifier that is
  not among them raises a \<^verbatim>\<open>ReferenceError\<close> in strict mode, inside the callback, which
  rejects the promise.
\<close>

definition moduleScope :: "string list" where
  "moduleScope =
     [''events'', ''util'', ''debug'', ''rt'', ''BluetoothLEDevice'', ''BluetoothCacheMode'',
      ''BluetoothLEAdvertisementWatcher'', ''BluetoothLEScanningMode'',
      ''BluetoothLEAdvertisementType'', ''BluetoothLEAdvertisementDataTypes'',
      ''BluetoothLEAdvertisementWatcherStatus'', ''GattCharacteristicProperties'',
      ''GattDeviceService'', ''GattServiceUuids'', ''GattCommunicationStatus'',
      ''GattClientCharacteristicConfigurationDescriptorValue'', ''Radio'', ''RadioKind'',
      ''RadioState'', ''DataReader'', ''NobleBindings'',
      ''formatBluetoothAddress'', ''characteristicPropertiesToStrings'', ''getEnumName'',
      ''formatUuid'', ''filterUuids'', ''checkCommunicationResult'']"

definition descriptorCallbackScope :: "string list" where
  "descriptorCallbackScope =
     [''service'', ''deviceUuid'', ''serviceUuid'', ''characteristicUuid'', ''descriptorUuid'',
      ''deviceRecord'', ''descriptorKey'', ''descriptor''] @ moduleScope"

text \<open>Reading the identifier \<open>x\<close> to call a method of the resolved object \<open>v\<close>, in a scope
  where the identifier \<open>bound\<close> is the one that holds \<open>v\<close>.\<close>

definition readIdentifier ::
  "string list \<Rightarrow> string \<Rightarrow> 'a \<Rightarrow> string \<Rightarrow> js_error + 'a" where
  "readIdentifier scope bound v x =
     (if x \<notin> set scope then Inl (ReferenceError (x @ '' is not defined''))
      else if x = bound then Inr v
      else Inl (TypeError (x @ '' has no such method'')))"

definition getCachedDescriptorAsync ::
  "NobleBindings \<Rightarrow> string \<Rightarrow> string \<Rightarrow> string \<Rightarrow> string \<Rightarrow> NobleBindings \<times> GattDescriptor outcome" where
  "getCachedDescriptorAsync st deviceUuid serviceUuid characteristicUuid descriptorUuid =
     (case deviceMap st deviceUuid of
        None \<Rightarrow> (st, Threw (Error (''Invalid or unknown device UUID: '' @ deviceUuid)))
      | Some deviceRecord \<Rightarrow>
          (let descriptorKey = serviceUuid @ ''/'' @ characteristicUuid @ ''/'' @ descriptorUuid
           in case descriptorMap deviceRecord descriptorKey of
                Some descriptor \<Rightarrow> (st, Resolved descriptor)
              | None \<Rightarrow>
                  (case getCachedCharacteristicAsync st deviceUuid serviceUuid characteristicUuid of
                     (st1, Threw ex) \<Rightarrow> (st1, Threw ex)
                   | (st1, Rejected ex) \<Rightarrow> (st1, Rejected ex)
                   | (st1, Resolved service) \<Rightarrow>
                       (case readIdentifier descriptorCallbackScope ''service'' service ''characteristic'' of
                          Inl ex \<Rightarrow> (st1, Rejected ex)
                        | Inr characteristic \<Rightarrow>
                            (let st2 = logCall (GetDescriptors (c_id characteristic) Cached) st1
                             in case c_getDescriptorsAsync characteristic Cached of
                                  Inl ex \<Rightarrow> (st2, Rejected ex)
                                | Inr (status, descriptors) \<Rightarrow>
                                    (case checkCommunicationResult deviceUuid status of
                                       Some ex \<Rightarrow> (st2, Rejected ex)
                                     | None \<Rightarrow>
                                         (case find (\<lambda>d. formatUuid (d_uuid d) = descriptorUuid) descriptors of
                                            None \<Rightarrow>
                                              (st2, Rejected (Error (''Service '' @ serviceUuid
                                                 @ '' characteristic '' @ characteristicUuid
                                                 @ '' descriptor '' @ descriptorUuid
                                                 @ '' not found for device '' @ deviceUuid)))
                                          | Some descriptor \<Rightarrow>
                                              (updateRecord deviceUuid
                                                 (\<lambda>r. r\<lparr>descriptorMap :=
                                                           (descriptorMap r)(descriptorKey \<mapsto> descriptor)\<rparr>) st2,
                                               Resolved descriptor))))))))"

section \<open>\<^verbatim>\<open>notify\<close> (bindings.js)\<close>

text \<open>\<open>notifyCatch\<close> is the handler given to \<^verbatim>\<open>catch\<close>: it reports the error in the
  \<^verbatim>\<open>notify\<close> event. In the branch that disables, the listener is detached and its entry
  deleted before the descriptor is written.\<close>

definition notifyCatch ::
  "string \<Rightarrow> string \<Rightarrow> string \<Rightarrow> NobleBindings \<Rightarrow> js_error
     \<Rightarrow> NobleBindings \<times> event list \<times> unit outcome" where
  "notifyCatch deviceUuid serviceUuid characteristicUuid st ex =
     (st, [NotifyEvent deviceUuid serviceUuid characteristicUuid (Inl ex)], Resolved ())"

definition notify ::
  "NobleBindings \<Rightarrow> string \<Rightarrow> string \<Rightarrow> string \<Rightarrow> bool
     \<Rightarrow> NobleBindings \<times> event list \<times> unit outcome" where
  "notify st deviceUuid serviceUuid characteristicUuid notifyArg =
     (case getCachedCharacteristicAsync st deviceUuid serviceUuid characteristicUuid of
        (st1, Threw ex) \<Rightarrow> (st1, [], Threw ex)
      | (st1, Rejected ex) \<Rightarrow> notifyCatch deviceUuid serviceUuid characteristicUuid st1 ex
      | (st1, Resolved characteristic) \<Rightarrow>
          (let listenerKey = deviceUuid @ ''/'' @ serviceUuid @ ''/'' @ characteristicUuid;
               listener = listenerMap st1 listenerKey
           in if notifyArg then
                (case listener of
                   Some _ \<Rightarrow>
                     (st1, [NotifyEvent deviceUuid serviceUuid characteristicUuid (Inr notifyArg)], Resolved ())
                 | None \<Rightarrow>
                     (let st2 = logCall (WriteCccd (c_id characteristic) CccdNotify) st1
                      in case c_writeCccdAsync characteristic CccdNotify of
                           Inl ex \<Rightarrow> notifyCatch deviceUuid serviceUuid characteristicUuid st2 ex
                         | Inr status \<Rightarrow>
                             (case checkCommunicationResult deviceUuid status of
                                Some ex \<Rightarrow> notifyCatch deviceUuid serviceUuid characteristicUuid st2 ex
                              | None \<Rightarrow>
                                  (let st3 = logCall (AddValueChangedListener (c_id characteristic)) st2;
                                       st4 = st3\<lparr>listenerMap := (listenerMap st3)(listenerKey \<mapsto>
                                                ValueChangedListener deviceUuid serviceUuid characteristicUuid)\<rparr>;
                                       st5 = st4\<lparr>rt := keepAlive True (rt st4)\<rparr>
                                   in (st5, [NotifyEvent deviceUuid serviceUuid characteristicUuid
                                               (Inr notifyArg)], Resolved ())))))
              else
                (case listener of
                   None \<Rightarrow>
                     (st1, [NotifyEvent deviceUuid serviceUuid characteristicUuid (Inr notifyArg)], Resolved ())
                 | Some _ \<Rightarrow>
                     (let st2 = st1\<lparr>rt := keepAlive False (rt st1)\<rparr>;
                          st3 = logCall (RemoveValueChangedListener (c_id characteristic)) st2;
                          st4 = st3\<lparr>listenerMap := (listenerMap st3)(listenerKey := None)\<rparr>;
                          st5 = logCall (WriteCccd (c_id characteristic) CccdNone) st4
                      in case c_writeCccdAsync characteristic CccdNone of
                           Inl ex \<Rightarrow> notifyCatch deviceUuid serviceUuid characteristicUuid st5 ex
                         | Inr status \<Rightarrow>
                             (case checkCommunicationResult deviceUuid status of
                                Some ex \<Rightarrow> notifyCatch deviceUuid serviceUuid characteristicUuid st5 ex
                              | None \<Rightarrow>
                                  (st5, [NotifyEvent deviceUuid serviceUuid characteristicUuid
                                           (Inr notifyArg)], Resolved ()))))))"

section \<open>\<^verbatim>\<open>write\<close> and \<^verbatim>\<open>writeValue\<close> (bindings.js)\<close>

text \<open>
  Both operations end in a handler given to \<^verbatim>\<open>catch\<close> whose body is
  \<^verbatim>\<open>if (!withoutResponse) { emit(..., ex) }\<close>. The handler reads the identifier
  \<^verbatim>\<open>withoutResponse\<close> in the scope of the operation it belongs to: \<^verbatim>\<open>write\<close> has a parameter
  of that name, \<^verbatim>\<open>writeValue\<close> has not, and the module declares no such variable. An
  exception raised inside the handler leaves the chain rejected.
\<close>

definition writeScope :: "string list" where
  "writeScope =
     [''ex'', ''_this7'', ''deviceUuid'', ''serviceUuid'', ''characteristicUuid'', ''data'',
      ''withoutResponse''] @ moduleScope"

definition writeValueScope :: "string list" where
  "writeValueScope =
     [''ex'', ''_this11'', ''deviceUuid'', ''serviceUuid'', ''characteristicUuid'',
      ''descriptorUuid'', ''data''] @ moduleScope"

text \<open>The operation \<^verbatim>\<open>write\<close> is called \<open>write'\<close> here, the plain name being taken.
  The handler of a failure: \<open>flag\<close> is the value of \<^verbatim>\<open>withoutResponse\<close> where the scope
  binds it, \<open>failed\<close> the event that reports the error.\<close>

definition writeCatch ::
  "string list \<Rightarrow> bool \<Rightarrow> (js_error \<Rightarrow> event) \<Rightarrow> NobleBindings \<Rightarrow> js_error
     \<Rightarrow> NobleBindings \<times> event list \<times> unit outcome" where
  "writeCatch scope flag failed st ex =
     (case readIdentifier scope ''withoutResponse'' flag ''withoutResponse'' of
        Inl ex2 \<Rightarrow> (st, [], Rejected ex2)
      | Inr withoutResponse \<Rightarrow>
          (if \<not> withoutResponse then (st, [failed ex], Resolved ()) else (st, [], Resolved ())))"

definition write' ::
  "NobleBindings \<Rightarrow> string \<Rightarrow> string \<Rightarrow> string \<Rightarrow> 8 word list \<Rightarrow> bool
     \<Rightarrow> NobleBindings \<times> event list \<times> unit outcome" where
  "write' st deviceUuid serviceUuid characteristicUuid bytes withoutResponse =
     (let failed = (\<lambda>ex. WriteEvent deviceUuid serviceUuid characteristicUuid (Some ex))
      in case getCachedCharacteristicAsync st deviceUuid serviceUuid characteristicUuid of
           (st1, Threw ex) \<Rightarrow> (st1, [], Threw ex)
         | (st1, Rejected ex) \<Rightarrow> writeCatch writeScope withoutResponse failed st1 ex
         | (st1, Resolved characteristic) \<Rightarrow>
             (let st2 = logCall (WriteCharacteristicValue (c_id characteristic) bytes) st1
              in case c_writeValueWithResultAsync characteristic of
                   Inl ex \<Rightarrow> writeCatch writeScope withoutResponse failed st2 ex
                 | Inr status \<Rightarrow>
                     (case checkCommunicationResult deviceUuid status of
                        Some ex \<Rightarrow> writeCatch writeScope withoutResponse failed st2 ex
                      | None \<Rightarrow>
                          (st2, [WriteEvent deviceUuid serviceUuid characteristicUuid None], Resolved ()))))"

definition writeValue ::
  "NobleBindings \<Rightarrow> string \<Rightarrow> string \<Rightarrow> string \<Rightarrow> string \<Rightarrow> 8 word list
     \<Rightarrow> NobleBindings \<times> event list \<times> unit outcome" where
  "writeValue st deviceUuid serviceUuid characteristicUuid descriptorUuid bytes =
     (let failed = (\<lambda>ex. WriteValueEvent deviceUuid serviceUuid characteristicUuid descriptorUuid (Some ex))
      in case getCachedDescriptorAsync st deviceUuid serviceUuid characteristicUuid descriptorUuid of
           (st1, Threw ex) \<Rightarrow> (st1, [], Threw ex)
         | (st1, Rejected ex) \<Rightarrow> writeCatch writeValueScope False failed st1 ex
         | (st1, Resolved descriptor) \<Rightarrow>
             (let st2 = logCall (WriteDescriptorValue (d_id descriptor) bytes) st1
              in case d_writeValueWithResultAsync descriptor of
                   Inl ex \<Rightarrow> writeCatch writeValueScope False failed st2 ex
                 | Inr status \<Rightarrow>
                     (case checkCommunicationResult deviceUuid status of
                        Some ex \<Rightarrow> writeCatch writeValueScope False failed st2 ex
                      | None \<Rightarrow>
                          (st2, [WriteValueEvent deviceUuid serviceUuid characteristicUuid descriptorUuid None],
                           Resolved ()))))"

section \<open>Notions the properties are stated with\<close>

text \<open>
  A UUID text is five groups of hexadecimal digits, of 8, 4, 4, 4 and 12 digits, joined by
  hyphens; the platform hands it over in braces. It matches the Bluetooth base UUID when,
  letter case aside, it reads \<^verbatim>\<open>0000xxxx-0000-1000-8000-00805F9B34FB\<close>.
\<close>

definition ciEqual :: "string \<Rightarrow> string \<Rightarrow> bool" where
  "ciEqual x y = (map canonicalize x = map canonicalize y)"

definition isHexDigit :: "char \<Rightarrow> bool" where
  "isHexDigit c = (c \<in> set ''0123456789abcdefABCDEF'')"

definition uuidGroups :: "string \<Rightarrow> string \<Rightarrow> string \<Rightarrow> string \<Rightarrow> string \<Rightarrow> bool" where
  "uuidGroups a b c d e =
     (length a = 8 \<and> length b = 4 \<and> length c = 4 \<and> length d = 4 \<and> length e = 12
      \<and> list_all isHexDigit (a @ b @ c @ d @ e))"

definition uuidText :: "string \<Rightarrow> string \<Rightarrow> string \<Rightarrow> string \<Rightarrow> string \<Rightarrow> string" where
  "uuidText a b c d e = a @ ''-'' @ b @ ''-'' @ c @ ''-'' @ d @ ''-'' @ e"

definition isBluetoothBase :: "string \<Rightarrow> string \<Rightarrow> string \<Rightarrow> string \<Rightarrow> string \<Rightarrow> bool" where
  "isBluetoothBase a b c d e =
     (ciEqual (take 4 a) ''0000'' \<and> ciEqual b ''0000'' \<and> ciEqual c ''1000''
      \<and> ciEqual d ''8000'' \<and> ciEqual e ''00805F9B34FB'')"

text \<open>An address as six bytes, most significant first, each as two lower-case hexadecimal
  digits, with colons between them.\<close>

definition hexPair :: "nat \<Rightarrow> string" where
  "hexPair b = [hexDigit (b div 16), hexDigit (b mod 16)]"

definition addressByte :: "nat \<Rightarrow> nat \<Rightarrow> nat" where
  "addressByte a k = (a div 256 ^ k) mod 256"

definition colonSeparated :: "nat \<Rightarrow> string" where
  "colonSeparated a =
     hexPair (addressByte a 5) @ '':'' @ hexPair (addressByte a 4) @ '':''
     @ hexPair (addressByte a 3) @ '':'' @ hexPair (addressByte a 2) @ '':''
     @ hexPair (addressByte a 1) @ '':'' @ hexPair (addressByte a 0)"

text \<open>The \<open>n\<close> low hexadecimal digits of a number, most significant first.\<close>

fun fixedHex :: "nat \<Rightarrow> nat \<Rightarrow> string" where
  "fixedHex 0 a = []"
| "fixedHex (Suc n) a = fixedHex n (a div 16) @ [hexDigit (a mod 16)]"

text \<open>The state after \<^verbatim>\<open>trackDisposable('k', o)\<close> for a closable device object \<open>o\<close>, from the
  initial module state.\<close>

definition rt_one_tracked :: rt_state where
  "rt_one_tracked = rt_init\<lparr>disposableMap := [''k'' \<mapsto> [JsObj (DeviceHandle 1) True]]\<rparr>"

text \<open>
  A packet whose TX power section, if it has one, holds at least one byte: the packets on
  which the handler does not raise.
\<close>

definition txPowerReadable :: "BluetoothLEAdvertisementReceivedEventArgs \<Rightarrow> bool" where
  "txPowerReadable e =
     (case find (\<lambda>ds. dataType ds = txPowerLevelDataType) (dataSections (advertisement e)) of
        None \<Rightarrow> True
      | Some ds \<Rightarrow> data ds \<noteq> [])"

text \<open>The state after a run, the service UUIDs accumulated for a device in a state, and
  the service UUIDs carried by the packets of a device, in the order of arrival.\<close>

definition finalState :: "NobleBindings \<Rightarrow> (NobleBindings \<times> event list) list \<Rightarrow> NobleBindings" where
  "finalState st tr = last (st # map fst tr)"

definition accumulated :: "NobleBindings \<Rightarrow> string \<Rightarrow> string list" where
  "accumulated st u = (case deviceMap st u of None \<Rightarrow> [] | Some r \<Rightarrow> serviceUuids r)"

text \<open>A list without its repetitions: every element stays at its first occurrence.\<close>

fun firstSeen :: "'a list \<Rightarrow> 'a list" where
  "firstSeen [] = []"
| "firstSeen (x # xs) = x # firstSeen (filter (\<lambda>y. y \<noteq> x) xs)"

definition carriedServiceUuids ::
  "string \<Rightarrow> BluetoothLEAdvertisementReceivedEventArgs list \<Rightarrow> string list" where
  "carriedServiceUuids u es =
     concat (map (\<lambda>e. advServiceUuids (advertisement e)) (filter (\<lambda>e. deviceUuidOf e = u) es))"


text \<open>
  What the packets of a device say, read off the packets themselves. \<open>lastOr d xs\<close> is the
  last element of \<open>xs\<close>, or \<open>d\<close> when there is none. A packet tells a local name when the name
  is not empty, a TX power level when it has a TX power section with a byte in it (the byte
  read as a signed 8-bit number), and manufacturer data when it has a manufacturer section
  (the first one: the company identifier, low byte first, then the section's data).
\<close>

definition lastOr :: "'a \<Rightarrow> 'a list \<Rightarrow> 'a" where
  "lastOr d xs = (if xs = [] then d else last xs)"









text \<open>
  Two packets of one device: a connectable advertisement with TX power 4 and two service
  UUIDs, then a scan response with TX power 0, manufacturer data and two service UUIDs, one
  of them seen before. \<open>recordA\<close>, \<open>stateA\<close> and \<open>recordB\<close>, \<open>stateB\<close> are the device record and
  the state after the first and after the second packet.
\<close>

definition packetA :: BluetoothLEAdvertisementReceivedEventArgs where
  "packetA =
     \<lparr>bluetoothAddress = 0x0011223344AA, advertisementType = ConnectableUndirected,
      rawSignalStrengthInDBm = - 60,
      advertisement = \<lparr>localName = ''HRM'',
                       dataSections = [\<lparr>dataType = 0x0A, data = [4]\<rparr>],
                       advManufacturerData = [],
                       advServiceUuids = [''180d'', ''180f'']\<rparr>\<rparr>"

definition packetB :: BluetoothLEAdvertisementReceivedEventArgs where
  "packetB =
     \<lparr>bluetoothAddress = 0x0011223344AA, advertisementType = ScanResponse,
      rawSignalStrengthInDBm = - 58,
      advertisement = \<lparr>localName = [],
                       dataSections = [\<lparr>dataType = 0x0A, data = [0]\<rparr>],
                       advManufacturerData = [\<lparr>companyId = 0x004C, companyData = [2, 21]\<rparr>],
                       advServiceUuids = [''180f'', ''180a'']\<rparr>\<rparr>"

text \<open>The TX power level stored for a device after a run.\<close>

definition txPowerAfter ::
  "NobleBindings \<Rightarrow> BluetoothLEAdvertisementReceivedEventArgs list \<Rightarrow> string \<Rightarrow> js_error + int option" where
  "txPowerAfter st es u =
     (case receiveAll st es of
        Inl ex \<Rightarrow> Inl ex
      | Inr tr \<Rightarrow> (case deviceMap (finalState st tr) u of None \<Rightarrow> Inr None | Some r \<Rightarrow> Inr (txPowerLevel r)))"

definition recordA :: deviceRecord where
  "recordA =
     \<lparr>name = Some ''HRM'', address = 0x0011223344AA, formattedAddress = ''00:11:22:33:44:aa'',
      addressType = ''public'', connectable = Some True, serviceUuids = [''180d'', ''180f''],
      txPowerLevel = Some 4, manufacturerData = None, device = None, serviceMap = Map.empty,
      characteristicMap = Map.empty, descriptorMap = Map.empty\<rparr>"

definition recordB :: deviceRecord where
  "recordB = recordA\<lparr>serviceUuids := [''180d'', ''180f'', ''180a''],
                      manufacturerData := Some [0x4C, 0, 2, 21]\<rparr>"

definition stateA :: NobleBindings where
  "stateA = NobleBindings_init\<lparr>deviceMap := [''0011223344aa'' \<mapsto> recordA]\<rparr>"

definition stateB :: NobleBindings where
  "stateB = NobleBindings_init\<lparr>deviceMap := [''0011223344aa'' \<mapsto> recordB]\<rparr>"

text \<open>
  Transport objects for the examples: a device with the heart rate service, its measurement
  characteristic and that characteristic's client configuration descriptor. The transport
  accepts the request to enable notifications, answers the request to disable them with the
  status \<open>Unreachable\<close>, and answers a write to the descriptor with the same status.
\<close>

definition exampleDescriptor :: GattDescriptor where
  "exampleDescriptor =
     GattDescriptor 100 ''{00002902-0000-1000-8000-00805F9B34FB}'' (Inr Unreachable)"

definition exampleCharacteristic :: GattCharacteristic where
  "exampleCharacteristic =
     GattCharacteristic 10 ''{00002A37-0000-1000-8000-00805F9B34FB}'' 0x10
       (\<lambda>mode. Inr (Success, [exampleDescriptor]))
       (\<lambda>v. case v of CccdNotify \<Rightarrow> Inr Success | CccdNone \<Rightarrow> Inr Unreachable)
       (Inr Success)"

definition exampleService :: GattDeviceService where
  "exampleService =
     GattDeviceService 5 ''{0000180D-0000-1000-8000-00805F9B34FB}''
       (\<lambda>mode. Inr (Success, [exampleCharacteristic]))"

definition exampleDevice :: BluetoothLEDevice where
  "exampleDevice = BluetoothLEDevice 1 (\<lambda>mode. Inr (Success, [exampleService]))"

text \<open>
  The states of the examples: \<open>stateConnected\<close> after \<^verbatim>\<open>connect\<close> from \<open>stateB\<close>,
  \<open>stateResolved\<close> after the characteristic was resolved, \<open>stateSubscribed\<close> after
  \<^verbatim>\<open>notify(..., true)\<close> from \<open>stateConnected\<close>.
\<close>

definition recordConnected :: deviceRecord where
  "recordConnected = recordB\<lparr>device := Some exampleDevice\<rparr>"

definition stateConnected :: NobleBindings where
  "stateConnected =
     \<lparr>deviceMap = [''0011223344aa'' \<mapsto> recordConnected],
      listenerMap = Map.empty,
      rt = rt_init\<lparr>disposableMap := [''0011223344aa'' \<mapsto> [JsObj (DeviceHandle 1) True]]\<rparr>,
      transportLog = []\<rparr>"

definition recordResolved :: deviceRecord where
  "recordResolved =
     recordConnected\<lparr>serviceMap := [''180d'' \<mapsto> exampleService],
                      characteristicMap := [''180d/2a37'' \<mapsto> exampleCharacteristic]\<rparr>"

definition stateResolved :: NobleBindings where
  "stateResolved =
     \<lparr>deviceMap = [''0011223344aa'' \<mapsto> recordResolved],
      listenerMap = Map.empty,
      rt = rt_init\<lparr>disposableMap :=
             [''0011223344aa'' \<mapsto> [JsObj (DeviceHandle 1) True, JsObj (ServiceHandle 5) True]]\<rparr>,
      transportLog = [GetGattServices 1 Cached, GetCharacteristics 5 Cached]\<rparr>"

definition stateSubscribed :: NobleBindings where
  "stateSubscribed =
     stateResolved
       \<lparr>listenerMap := [''0011223344aa/180d/2a37'' \<mapsto>
                          ValueChangedListener ''0011223344aa'' ''180d'' ''2a37''],
        rt := (rt stateResolved)\<lparr>keepAliveIntervalCount := 1, keepAliveInterval := True\<rparr>,
        transportLog := [GetGattServices 1 Cached, GetCharacteristics 5 Cached,
                         WriteCccd 10 CccdNotify, AddValueChangedListener 10]\<rparr>"

text \<open>A device that answers every service query with the status \<open>Unreachable\<close>, the state
  after \<^verbatim>\<open>connect\<close> to it, and a state whose descriptor cache holds the example's descriptor.\<close>

definition unreachableDevice :: BluetoothLEDevice where
  "unreachableDevice = BluetoothLEDevice 2 (\<lambda>mode. Inr (Unreachable, []))"

definition stateUnreachable :: NobleBindings where
  "stateUnreachable =
     \<lparr>deviceMap = [''0011223344aa'' \<mapsto> recordB\<lparr>device := Some unreachableDevice\<rparr>],
      listenerMap = Map.empty,
      rt = rt_init\<lparr>disposableMap := [''0011223344aa'' \<mapsto> [JsObj (DeviceHandle 2) True]]\<rparr>,
      transportLog = []\<rparr>"

definition stateDescriptorCached :: NobleBindings where
  "stateDescriptorCached =
     stateResolved\<lparr>deviceMap := [''0011223344aa'' \<mapsto>
        recordResolved\<lparr>descriptorMap := [''180d/2a37/2902'' \<mapsto> exampleDescriptor]\<rparr>]\<rparr>"

text \<open>The key of a subscription entry, and the error with which the write of the client
  configuration descriptor fails, if it fails: the error handed to the callback, or the one
  \<^verbatim>\<open>checkCommunicationResult\<close> throws for the status.\<close>

definition listenerKeyOf :: "string \<Rightarrow> string \<Rightarrow> string \<Rightarrow> string" where
  "listenerKeyOf deviceUuid serviceUuid characteristicUuid =
     deviceUuid @ ''/'' @ serviceUuid @ ''/'' @ characteristicUuid"

definition cccdWriteFailure ::
  "string \<Rightarrow> GattCharacteristic \<Rightarrow> GattClientCharacteristicConfigurationDescriptorValue
     \<Rightarrow> js_error option" where
  "cccdWriteFailure deviceUuid ch v =
     (case c_writeCccdAsync ch v of
        Inl ex \<Rightarrow> Some ex
      | Inr status \<Rightarrow> checkCommunicationResult deviceUuid status)"

section \<open>Properties of the formatters\<close>

lemma hex_class_all: "\<forall>c \<in> set ''0123456789abcdefABCDEF''. atomMatches HexClass c"
  by code_simp

lemma isHexDigit_class: "isHexDigit c \<Longrightarrow> atomMatches HexClass c"
  unfolding isHexDigit_def using hex_class_all by blast

lemma isHexDigit_keep: "isHexDigit c \<Longrightarrow> c \<notin> set ''-{}''"
  unfolding isHexDigit_def by auto

lemma hex_lower_all: "\<forall>c \<in> set ''0123456789abcdefABCDEF''. toLowerChar c \<in> set ''0123456789abcdef''"
  by code_simp

lemma isHexDigit_lower: "isHexDigit c \<Longrightarrow> toLowerChar c \<in> set ''0123456789abcdef''"
  unfolding isHexDigit_def using hex_lower_all by blast

lemma matchHere_short: "length s < length p \<Longrightarrow> \<not> matchHere p s"
  by (induction p s rule: matchHere.induct) auto

lemma regexTest_short: "length s < length p \<Longrightarrow> \<not> regexTest p s"
  by (induction s) (auto simp: matchHere_short)

lemma regexTest_exact: "length s = length p \<Longrightarrow> regexTest p s = matchHere p s"
  by (cases s) (auto simp: regexTest_short)

lemma matchHere_append:
  "length p = length x \<Longrightarrow> matchHere (p @ q) (x @ y) = (matchHere p x \<and> matchHere q y)"
  by (induction p x rule: list_induct2) auto

lemma matchHere_Lit: "length l = length x \<Longrightarrow> matchHere (map Lit l) x = ciEqual x l"
  by (induction l x rule: list_induct2) (auto simp: ciEqual_def)

lemma matchHere_Hex: "list_all isHexDigit x \<Longrightarrow> matchHere (replicate (length x) HexClass) x"
  by (induction x) (simp_all add: isHexDigit_class del: atomMatches.simps)

lemma basePattern_split:
  "baseUuidPattern = map Lit ''{'' @ map Lit ''0000'' @ replicate 4 HexClass @ map Lit ''-''
     @ map Lit ''0000'' @ map Lit ''-'' @ map Lit ''1000'' @ map Lit ''-'' @ map Lit ''8000''
     @ map Lit ''-'' @ map Lit ''00805F9B34FB'' @ map Lit ''}''"
  by (simp add: baseUuidPattern_def)

lemma braced_split:
  "length a = 8 \<Longrightarrow> ''{'' @ uuidText a b c d e @ ''}'' =
     ''{'' @ take 4 a @ drop 4 a @ ''-'' @ b @ ''-'' @ c @ ''-'' @ d @ ''-'' @ e @ ''}''"
  by (simp add: uuidText_def)

lemma braced_match:
  assumes "uuidGroups a b c d e"
  shows "regexTest baseUuidPattern (''{'' @ uuidText a b c d e @ ''}'') = isBluetoothBase a b c d e"
proof -
  from assms have len: "length a = 8" "length b = 4" "length c = 4" "length d = 4" "length e = 12"
    and hex: "list_all isHexDigit (drop 4 a)"
    by (auto simp: uuidGroups_def list_all_iff dest: in_set_dropD)
  have l4: "length (drop 4 a) = 4" "length (take 4 a) = 4" using len by simp_all
  have total: "length (''{'' @ uuidText a b c d e @ ''}'') = length baseUuidPattern"
    using len by (simp add: uuidText_def baseUuidPattern_def)
  have h: "matchHere (replicate 4 HexClass) (drop 4 a)"
    using matchHere_Hex [OF hex] l4 by simp
  have "matchHere baseUuidPattern (''{'' @ uuidText a b c d e @ ''}'') = isBluetoothBase a b c d e"
    unfolding basePattern_split braced_split [OF len(1)]
    using len l4 h
    by (simp add: matchHere_append matchHere_Lit isBluetoothBase_def ciEqual_def del: replicate.simps map_append  list.map append.simps replicate_Suc)
  then show ?thesis using regexTest_exact [OF total] by simp
qed


lemma unbraced_no_match:
  assumes "uuidGroups a b c d e"
  shows "\<not> regexTest baseUuidPattern (uuidText a b c d e)"
proof -
  from assms have "length (uuidText a b c d e) < length baseUuidPattern"
    by (simp add: uuidGroups_def uuidText_def baseUuidPattern_def)
  then show ?thesis by (rule regexTest_short)
qed

lemma filter_hex: "list_all isHexDigit x \<Longrightarrow> filter (\<lambda>c. c \<notin> set ''-{}'') x = x"
  by (induction x) (simp_all add: isHexDigit_keep del: set_simps)

lemma strip_text:
  assumes "uuidGroups a b c d e"
  shows "filter (\<lambda>c. c \<notin> set ''-{}'') (uuidText a b c d e) = a @ b @ c @ d @ e"
    and "filter (\<lambda>c. c \<notin> set ''-{}'') (''{'' @ uuidText a b c d e @ ''}'') = a @ b @ c @ d @ e"
proof -
  from assms have "list_all isHexDigit a" "list_all isHexDigit b" "list_all isHexDigit c"
    "list_all isHexDigit d" "list_all isHexDigit e"
    by (simp_all add: uuidGroups_def)
  then have f: "filter (\<lambda>c. c \<notin> set ''-{}'') a = a" "filter (\<lambda>c. c \<notin> set ''-{}'') b = b"
    "filter (\<lambda>c. c \<notin> set ''-{}'') c = c" "filter (\<lambda>c. c \<notin> set ''-{}'') d = d"
    "filter (\<lambda>c. c \<notin> set ''-{}'') e = e"
    by (simp_all only: filter_hex)
  show "filter (\<lambda>c. c \<notin> set ''-{}'') (uuidText a b c d e) = a @ b @ c @ d @ e"
    unfolding uuidText_def filter_append f by simp
  show "filter (\<lambda>c. c \<notin> set ''-{}'') (''{'' @ uuidText a b c d e @ ''}'') = a @ b @ c @ d @ e"
    unfolding uuidText_def filter_append f by simp
qed

lemma lower_hex:
  assumes "uuidGroups a b c d e"
  shows "list_all (\<lambda>c. c \<in> set ''0123456789abcdef'') (toLowerCase (a @ b @ c @ d @ e))"
proof -
  from assms have "list_all isHexDigit (a @ b @ c @ d @ e)" by (simp add: uuidGroups_def)
  then show ?thesis
    unfolding toLowerCase_def list_all_iff using isHexDigit_lower by auto
qed

text \<open>
  C2, as the code has it. For every UUID text in braces that matches the Bluetooth base UUID,
  \<open>formatUuid\<close> returns the four digits of the assigned number in lower case; for every other
  UUID text in braces, and for every UUID text without braces (also one that matches the base
  UUID), it returns the 32 digits in lower case, hyphens and braces removed.
\<close>

theorem formatUuid_braced_short_else_long:
  assumes "uuidGroups a b c d e"
  shows "formatUuid (''{'' @ uuidText a b c d e @ ''}'') =
           (if isBluetoothBase a b c d e then toLowerCase (drop 4 a) else toLowerCase (a @ b @ c @ d @ e))
         \<and> formatUuid (uuidText a b c d e) = toLowerCase (a @ b @ c @ d @ e)
         \<and> length (toLowerCase (drop 4 a)) = 4
         \<and> length (toLowerCase (a @ b @ c @ d @ e)) = 32
         \<and> list_all (\<lambda>c. c \<in> set ''0123456789abcdef'') (toLowerCase (a @ b @ c @ d @ e))"
proof -
  from assms have len: "length a = 8" "length b = 4" "length c = 4" "length d = 4" "length e = 12"
    by (simp_all add: uuidGroups_def)
  have ne: "uuidText a b c d e \<noteq> []" by (simp add: uuidText_def)
  have sub: "substr (''{'' @ uuidText a b c d e @ ''}'') 5 4 = drop 4 a"
    using len by (simp add: substr_def uuidText_def)
  have 1: "formatUuid (''{'' @ uuidText a b c d e @ ''}'') =
           (if isBluetoothBase a b c d e then toLowerCase (drop 4 a) else toLowerCase (a @ b @ c @ d @ e))"
    unfolding formatUuid_def braced_match [OF assms] strip_text(2) [OF assms] sub by simp
  have 2: "formatUuid (uuidText a b c d e) = toLowerCase (a @ b @ c @ d @ e)"
    unfolding formatUuid_def strip_text(1) [OF assms] using ne unbraced_no_match [OF assms] by simp
  have 3: "length (toLowerCase (drop 4 a)) = 4" "length (toLowerCase (a @ b @ c @ d @ e)) = 32"
    using len by (simp_all add: toLowerCase_def)
  from 1 2 3 lower_hex [OF assms] show ?thesis by blast
qed

theorem formatUuid_braced_short_else_long_witness:
  "uuidGroups ''0000180D'' ''0000'' ''1000'' ''8000'' ''00805F9B34FB''
   \<and> formatUuid ''{0000180D-0000-1000-8000-00805F9B34FB}'' = ''180d''"
proof -
  have h: "uuidGroups ''0000180D'' ''0000'' ''1000'' ''8000'' ''00805F9B34FB''" by code_simp
  have t: "''{'' @ uuidText ''0000180D'' ''0000'' ''1000'' ''8000'' ''00805F9B34FB'' @ ''}''
             = ''{0000180D-0000-1000-8000-00805F9B34FB}''"
    by (simp add: uuidText_def)
  have b: "isBluetoothBase ''0000180D'' ''0000'' ''1000'' ''8000'' ''00805F9B34FB''" by code_simp
  have l: "toLowerCase (drop 4 ''0000180D'') = ''180d''" by code_simp
  from formatUuid_braced_short_else_long [OF h]
  have "formatUuid (''{'' @ uuidText ''0000180D'' ''0000'' ''1000'' ''8000'' ''00805F9B34FB'' @ ''}'')
          = (if isBluetoothBase ''0000180D'' ''0000'' ''1000'' ''8000'' ''00805F9B34FB''
             then toLowerCase (drop 4 ''0000180D'')
             else toLowerCase (''0000180D'' @ ''0000'' @ ''1000'' @ ''8000'' @ ''00805F9B34FB''))"
    by (rule conjunct1)
  then have "formatUuid ''{0000180D-0000-1000-8000-00805F9B34FB}'' = ''180d''"
    by (simp only: t b l if_True)
  with h show ?thesis by (rule conjI)
qed

text \<open>C2 as stated fails on the first example of the specification: without braces the
  text does not match the pattern, and all 32 digits come back.\<close>

theorem formatUuid_unbraced_base_counterexample:
  "formatUuid ''0000180D-0000-1000-8000-00805F9B34FB'' = ''0000180d00001000800000805f9b34fb''
   \<and> formatUuid ''0000180D-0000-1000-8000-00805F9B34FB'' \<noteq> ''180d''"
  by code_simp

lemma formatUuid_long_example:
  "formatUuid ''6E400001-B5A3-F393-E0A9-E50E24DCCA9E'' = ''6e400001b5a3f393e0a9e50e24dcca9e''"
  by code_simp

lemma padAddress_eq: "padAddress s = replicate (12 - length s) CHR ''0'' @ s"
proof (induction s rule: padAddress.induct)
  case (1 s)
  show ?case
  proof (cases "length s < 12")
    case True
    then have "12 - length s = Suc (12 - Suc (length s))" by simp
    with True 1 show ?thesis
      by (subst padAddress.simps) (simp add: replicate_app_Cons_same)
  next
    case False
    then show ?thesis by (subst padAddress.simps) simp
  qed
qed

lemma fixedHex_zero: "fixedHex n 0 = replicate n CHR ''0''"
  by (induction n) (simp_all add: hexDigit_def replicate_append_same)

lemma toString16_fixed:
  "a < 16 ^ n \<Longrightarrow> 0 < n \<Longrightarrow>
     length (toString16 a) \<le> n \<and>
     replicate (n - length (toString16 a)) CHR ''0'' @ toString16 a = fixedHex n a"
proof (induction n arbitrary: a)
  case 0
  then show ?case by simp
next
  case (Suc n)
  show ?case
  proof (cases "a < 16")
    case True
    then show ?thesis
      by (subst (1 2 3) toString16.simps) (simp add: fixedHex_zero)
  next
    case False
    with Suc.prems have n: "0 < n" by (cases n) auto
    from Suc.prems have "a div 16 < 16 ^ n" by (simp add: less_mult_imp_div_less mult.commute)
    from Suc.IH [OF this n] False show ?thesis
      by (subst (1 2 3) toString16.simps) (simp add: Suc_diff_le)
  qed
qed

lemma rev_upt_Suc: "rev [0..<Suc n] = map Suc (rev [0..<n]) @ [0]"
proof -
  have "[0..<Suc n] = 0 # map Suc [0..<n]" by (simp only: upt_conv_Cons map_Suc_upt zero_less_Suc)
  then show ?thesis by (simp add: rev_map)
qed

lemma fixedHex_map: "fixedHex n a = map (\<lambda>k. hexDigit (a div 16 ^ k mod 16)) (rev [0..<n])"
proof (induction n arbitrary: a)
  case 0
  then show ?case by simp
next
  case (Suc n)
  have "fixedHex (Suc n) a = fixedHex n (a div 16) @ [hexDigit (a mod 16)]" by simp
  also have "\<dots> = map (\<lambda>k. hexDigit (a div 16 div 16 ^ k mod 16)) (rev [0..<n]) @ [hexDigit (a mod 16)]"
    by (simp only: Suc.IH)
  also have "\<dots> = map (\<lambda>k. hexDigit (a div 16 ^ k mod 16)) (map Suc (rev [0..<n]) @ [0])"
    by (simp add: div_mult2_eq comp_def)
  finally show ?case by (simp only: rev_upt_Suc)
qed

lemma rev_upt_12: "rev [0..<12] = [11, 10, 9, 8, 7, 6, 5, 4, 3, 2, 1, 0::nat]"
  by code_simp

lemma pow256: "(256::nat) ^ k = 16 ^ (2 * k)"
proof -
  have "(16::nat) ^ (2 * k) = (16 ^ 2) ^ k" by (rule power_mult)
  then show ?thesis by simp
qed

lemma mod_256: "(x::nat) mod 256 = 16 * (x div 16 mod 16) + x mod 16"
proof -
  have "x mod (16 * 16) = 16 * (x div 16 mod 16) + x mod 16" by (rule mod_mult2_eq)
  then show ?thesis by simp
qed

lemma byte_hi: "addressByte a k div 16 = a div 16 ^ (2 * k + 1) mod 16"
proof -
  have 1: "addressByte a k div 16 = a div 16 ^ (2 * k) div 16 mod 16"
    unfolding addressByte_def pow256 by (simp add: mod_256)
  have 2: "a div 16 ^ (2 * k) div 16 = a div (16 ^ (2 * k) * 16)" by (simp only: div_mult2_eq)
  show ?thesis unfolding 1 2 by (simp add: mult.commute)
qed

lemma byte_lo: "addressByte a k mod 16 = a div 16 ^ (2 * k) mod 16"
  unfolding addressByte_def pow256 by (simp add: mod_256)

lemma padded_digits:
  assumes "a < 2 ^ 48"
  shows "padAddress (toString16 a) = map (\<lambda>k. hexDigit (a div 16 ^ k mod 16)) [11, 10, 9, 8, 7, 6, 5, 4, 3, 2, 1, 0]"
proof -
  from assms have "a < 16 ^ 12" by simp
  from toString16_fixed [OF this] have "padAddress (toString16 a) = fixedHex 12 a"
    by (simp add: padAddress_eq)
  then show ?thesis by (simp only: fixedHex_map rev_upt_12)
qed

lemma colonSeparated_digits:
  "colonSeparated a =
     [hexDigit (a div 16 ^ 11 mod 16), hexDigit (a div 16 ^ 10 mod 16), CHR '':'',
      hexDigit (a div 16 ^ 9 mod 16), hexDigit (a div 16 ^ 8 mod 16), CHR '':'',
      hexDigit (a div 16 ^ 7 mod 16), hexDigit (a div 16 ^ 6 mod 16), CHR '':'',
      hexDigit (a div 16 ^ 5 mod 16), hexDigit (a div 16 ^ 4 mod 16), CHR '':'',
      hexDigit (a div 16 ^ 3 mod 16), hexDigit (a div 16 ^ 2 mod 16), CHR '':'',
      hexDigit (a div 16 ^ 1 mod 16), hexDigit (a div 16 ^ 0 mod 16)]"
  unfolding colonSeparated_def hexPair_def byte_hi byte_lo by simp

text \<open>
  C9, as the code has it. Every address from 1 to \<open>2 ^ 48 - 1\<close> is rendered as six pairs of
  lower-case hexadecimal digits joined by colons, twelve digits in all with the leading
  zeros; the address 0 is rendered as the text \<^verbatim>\<open>null\<close>.
\<close>

theorem formatBluetoothAddress_pairs:
  assumes "0 < a" and "a < 2 ^ 48"
  shows "formatBluetoothAddress a = colonSeparated a \<and> length (formatBluetoothAddress a) = 17
         \<and> formatBluetoothAddress 0 = ''null''"
proof -
  have "formatBluetoothAddress a = colonSeparated a"
    using assms(1) unfolding colonSeparated_digits
    by (simp add: formatBluetoothAddress_def padded_digits [OF assms(2)] substr_def)
  moreover have "length (colonSeparated a) = 17" by (simp add: colonSeparated_digits)
  moreover have "formatBluetoothAddress 0 = ''null''" by (simp add: formatBluetoothAddress_def)
  ultimately show ?thesis by simp
qed

theorem formatBluetoothAddress_pairs_witness:
  "(0::nat) < 0x0011223344AA \<and> (0x0011223344AA::nat) < 2 ^ 48
   \<and> formatBluetoothAddress 0x0011223344AA = ''00:11:22:33:44:aa''"
proof -
  have a: "(0::nat) < 0x0011223344AA" by simp
  have b: "(0x0011223344AA::nat) < 2 ^ 48" by simp
  have c: "colonSeparated 0x0011223344AA = ''00:11:22:33:44:aa''"
    by (simp add: colonSeparated_def hexPair_def addressByte_def hexDigit_def)
  from formatBluetoothAddress_pairs [OF a b]
  have "formatBluetoothAddress 0x0011223344AA = colonSeparated 0x0011223344AA" by (rule conjunct1)
  then have "formatBluetoothAddress 0x0011223344AA = ''00:11:22:33:44:aa''"
    using c by (rule trans)
  with a b show ?thesis by blast
qed

text \<open>C9 as stated fails at the address 0, which is a 48-bit integer: the guard
  \<^verbatim>\<open>if (!address) return 'null'\<close> answers before any digit is produced.\<close>

theorem formatBluetoothAddress_zero_counterexample:
  "formatBluetoothAddress 0 = ''null'' \<and> formatBluetoothAddress 0 \<noteq> ''00:00:00:00:00:00''"
  by code_simp

section \<open>Properties of the capability decoder\<close>

lemma set_pushIf: "set (pushIf b s l) = set l \<union> (if b then {s} else {})"
  by (simp add: pushIf_def)

lemma authenticatedSignedWrites_follows_broadcast:
  "''authenticatedSignedWrites'' \<in> set (characteristicPropertiesToStrings G props)
     \<longleftrightarrow> props AND propBroadcast G \<noteq> 0"
  unfolding characteristicPropertiesToStrings_def Let_def set_pushIf by simp

text \<open>
  C6 at the mask \<open>0x40\<close>, the bit of authenticated signed writes alone: the decoder returns
  no capability, because the seventh test reads the broadcast bit again. At the mask \<open>0x01\<close>
  it reports authenticated signed writes for a characteristic that only broadcasts.
\<close>

theorem characteristicPropertiesToStrings_signed_writes_bit:
  "characteristicPropertiesToStrings winrtGattCharacteristicProperties 0x40 = []
   \<and> characteristicPropertiesToStrings winrtGattCharacteristicProperties 0x01
       = [''broadcast'', ''authenticatedSignedWrites'']"
  by (simp add: characteristicPropertiesToStrings_def winrtGattCharacteristicProperties_def pushIf_def)

section \<open>Properties of the resource tracker\<close>

lemma closeEach_closeLog: "closeLog (closeEach l ts) = closeLog ts @ l"
  by (induction l arbitrary: ts) simp_all

lemma closeEach_disposableMap: "disposableMap (closeEach l ts) = disposableMap ts"
  by (induction l arbitrary: ts) simp_all

lemma closeEach_Nil: "closeEach [] ts = ts"
  by simp

lemma disposeAll_closeLog: "closeLog (disposeAll key ts) = closeLog ts @ tracked ts key"
  by (simp add: disposeAll_def tracked_def closeEach_closeLog split: option.split)

lemma disposeAll_disposableMap: "disposableMap (disposeAll key ts) = disposableMap ts"
  by (simp add: disposeAll_def closeEach_disposableMap split: option.split)

lemma disposeAll_tracked: "tracked (disposeAll key ts) key' = tracked ts key'"
  by (simp add: tracked_def disposeAll_disposableMap)

lemma trackDisposable_new:
  "\<not> alreadyTracked (JsObj h True) (tracked ts key) \<Longrightarrow>
     \<exists>ts'. trackDisposable key (Some (JsObj h True)) ts = Inr ts'
           \<and> tracked ts' key = tracked ts key @ [JsObj h True]"
  by (simp add: trackDisposable_def tracked_def Let_def)

text \<open>
  C5, as the code has it. \<open>disposeAll\<close> closes every object tracked for the identifier, in
  the order in which they were tracked (a newly tracked object goes to the end of the list),
  and leaves the tracked list as it was: nothing in the module clears it, so a second
  \<open>disposeAll\<close> closes the same objects once more. With no object tracked it changes nothing.
\<close>

theorem disposeAll_closes_in_order_keeps_list:
  "closeLog (disposeAll key ts) = closeLog ts @ tracked ts key
   \<and> disposableMap (disposeAll key ts) = disposableMap ts
   \<and> closeLog (disposeAll key (disposeAll key ts)) = closeLog ts @ tracked ts key @ tracked ts key
   \<and> (tracked ts key = [] \<longrightarrow> disposeAll key ts = ts)
   \<and> (\<not> alreadyTracked (JsObj h True) (tracked ts key) \<longrightarrow>
        (\<exists>ts'. trackDisposable key (Some (JsObj h True)) ts = Inr ts'
              \<and> closeLog (disposeAll key ts') = closeLog ts' @ tracked ts key @ [JsObj h True]))"
proof -
  have noop: "tracked ts key = [] \<longrightarrow> disposeAll key ts = ts"
    by (auto simp: disposeAll_def tracked_def split: option.splits)
  have new: "\<not> alreadyTracked (JsObj h True) (tracked ts key) \<longrightarrow>
        (\<exists>ts'. trackDisposable key (Some (JsObj h True)) ts = Inr ts'
              \<and> closeLog (disposeAll key ts') = closeLog ts' @ tracked ts key @ [JsObj h True])"
    using trackDisposable_new [of h ts key] by (auto simp: disposeAll_closeLog)
  show ?thesis
    using noop new by (simp add: disposeAll_closeLog disposeAll_disposableMap disposeAll_tracked)
qed

theorem disposeAll_closes_in_order_keeps_list_witness:
  "tracked rt_init ''k'' = [] \<and> disposeAll ''k'' rt_init = rt_init
   \<and> \<not> alreadyTracked (JsObj (DeviceHandle 1) True) (tracked rt_init ''k'')
   \<and> (\<exists>ts'. trackDisposable ''k'' (Some (JsObj (DeviceHandle 1) True)) rt_init = Inr ts'
            \<and> closeLog (disposeAll ''k'' ts') = closeLog ts' @ tracked rt_init ''k'' @ [JsObj (DeviceHandle 1) True])"
proof -
  have e: "tracked rt_init ''k'' = []" by (simp add: tracked_def rt_init_def)
  have n: "\<not> alreadyTracked (JsObj (DeviceHandle 1) True) (tracked rt_init ''k'')"
    by (simp add: e)
  from disposeAll_closes_in_order_keeps_list [of "''k''" rt_init "DeviceHandle 1"] e n
  show ?thesis by blast
qed

text \<open>C5 as stated fails after one object was tracked: after \<open>disposeAll\<close> the object is
  still tracked, and the second \<open>disposeAll\<close> closes it again.\<close>

theorem disposeAll_does_not_clear_counterexample:
  "trackDisposable ''k'' (Some (JsObj (DeviceHandle 1) True)) rt_init = Inr rt_one_tracked
   \<and> tracked (disposeAll ''k'' rt_one_tracked) ''k'' = [JsObj (DeviceHandle 1) True]
   \<and> closeLog (disposeAll ''k'' (disposeAll ''k'' rt_one_tracked))
       = [JsObj (DeviceHandle 1) True, JsObj (DeviceHandle 1) True]"
  by (simp add: trackDisposable_def tracked_def rt_init_def rt_one_tracked_def disposeAll_def)

section \<open>Properties of the advertisement handler\<close>

lemma readTx_returns:
  "txPowerReadable e \<Longrightarrow> \<exists>t. readTxPowerLevel (dataSections (advertisement e)) = Inr t"
  by (auto simp: txPowerReadable_def readTxPowerLevel_def readByte_def split: option.splits list.splits)

lemma readTx_raises:
  "\<not> txPowerReadable e \<Longrightarrow> \<exists>ex. readTxPowerLevel (dataSections (advertisement e)) = Inl ex"
  by (auto simp: txPowerReadable_def readTxPowerLevel_def readByte_def split: option.splits list.splits)

lemma received_returns:
  "txPowerReadable e \<Longrightarrow> \<exists>st' evs. onAdvertisementWatcherReceived st e = Inr (st', evs)"
  using readTx_returns [of e] by (auto simp: onAdvertisementWatcherReceived_def Let_def)


lemma receiveAll_returns:
  "list_all txPowerReadable es \<Longrightarrow> \<exists>tr. receiveAll st es = Inr tr"
proof (induction es arbitrary: st)
  case Nil
  then show ?case by simp
next
  case (Cons e es)
  from Cons.prems have "txPowerReadable e" and rest: "list_all txPowerReadable es" by simp_all
  then obtain st1 evs where h: "onAdvertisementWatcherReceived st e = Inr (st1, evs)"
    using received_returns by blast
  from Cons.IH [OF rest, of st1] obtain tr where "receiveAll st1 es = Inr tr" by blast
  with h show ?case by simp
qed

lemma receiveAll_Cons:
  assumes "receiveAll st (e # es) = Inr tr"
  obtains st1 evs tr' where "onAdvertisementWatcherReceived st e = Inr (st1, evs)"
    and "receiveAll st1 es = Inr tr'" and "tr = (st1, evs) # tr'"
  using assms by (auto split: sum.splits)


lemma example_address: "formatBluetoothAddress 0x0011223344AA = ''00:11:22:33:44:aa''"
  by (simp add: formatBluetoothAddress_def padded_digits substr_def hexDigit_def)

lemma example_uuid: "deviceUuidOf packetA = ''0011223344aa''" "deviceUuidOf packetB = ''0011223344aa''"
  by (simp_all add: deviceUuidOf_def packetA_def packetB_def example_address)

lemma example_tx:
  "readTxPowerLevel (dataSections (advertisement packetA)) = Inr (Some 4)"
  "readTxPowerLevel (dataSections (advertisement packetB)) = Inr (Some 0)"
  by (simp_all add: readTxPowerLevel_def readByte_def packetA_def packetB_def txPowerLevelDataType_def)

lemma stepA: "onAdvertisementWatcherReceived NobleBindings_init packetA = Inr (stateA, [])"
  unfolding onAdvertisementWatcherReceived_def example_uuid example_tx
  by (simp add: packetA_def NobleBindings_init_def stateA_def recordA_def newDeviceRecord_def
      mergeAdvertisement_def example_address Let_def)

lemma stepB: "onAdvertisementWatcherReceived stateA packetB =
   Inr (stateB, [DiscoverEvent ''0011223344aa'' ''00:11:22:33:44:aa'' ''public'' (Some True)
          (Advertisement (Some ''HRM'') (Some 4) (Some [0x4C, 0, 2, 21]) [''180d'', ''180f'', ''180a'']) (- 58)])"
  unfolding onAdvertisementWatcherReceived_def example_uuid example_tx
  by (simp add: packetB_def NobleBindings_init_def stateA_def stateB_def recordA_def recordB_def
      mergeAdvertisement_def example_address advertisementOf_def manufacturerBuffer_def Let_def)


lemma example_run: "receiveAll NobleBindings_init [packetA, packetB] =
   Inr [(stateA, []),
        (stateB, [DiscoverEvent ''0011223344aa'' ''00:11:22:33:44:aa'' ''public'' (Some True)
          (Advertisement (Some ''HRM'') (Some 4) (Some [0x4C, 0, 2, 21]) [''180d'', ''180f'', ''180a'']) (- 58)])]"
  by (simp add: stepA stepB)

lemma example_readable: "list_all txPowerReadable [packetA, packetB]"
  by (simp add: txPowerReadable_def packetA_def packetB_def txPowerLevelDataType_def)

lemma received_txPowerLevel:
  assumes "onAdvertisementWatcherReceived st e = Inr (st', evs)"
    and "readTxPowerLevel (dataSections (advertisement e)) = Inr t"
    and "deviceMap st (deviceUuidOf e) = Some r"
  shows "\<exists>r'. deviceMap st' (deviceUuidOf e) = Some r'
              \<and> txPowerLevel r' = (if t \<noteq> None \<and> t \<noteq> Some 0 then t else txPowerLevel r)"
  using assms
  by (auto simp: onAdvertisementWatcherReceived_def Let_def mergeAdvertisement_def
      split: list.splits)

text \<open>
  C7 at a packet that carries the TX power 0, for a device whose stored level is 4: the
  stored level is still 4 after the packet, since \<^verbatim>\<open>if (txPowerLevel)\<close> takes the number
  0 for an absent value.
\<close>

theorem txPowerLevel_zero_not_stored:
  "readTxPowerLevel (dataSections (advertisement packetB)) = Inr (Some 0)
   \<and> txPowerAfter NobleBindings_init [packetA] ''0011223344aa'' = Inr (Some 4)
   \<and> txPowerAfter NobleBindings_init [packetA, packetB] ''0011223344aa'' = Inr (Some 4)"
proof -
  have a: "receiveAll NobleBindings_init [packetA] = Inr [(stateA, [])]" by (simp add: stepA)
  have 1: "txPowerAfter NobleBindings_init [packetA] ''0011223344aa'' = Inr (Some 4)"
    unfolding txPowerAfter_def a by (simp add: finalState_def stateA_def recordA_def)
  have 2: "txPowerAfter NobleBindings_init [packetA, packetB] ''0011223344aa'' = Inr (Some 4)"
    unfolding txPowerAfter_def example_run
    by (simp add: finalState_def stateB_def recordB_def recordA_def)
  from example_tx(2) 1 2 show ?thesis by simp
qed

lemma set_firstSeen: "set (firstSeen xs) = set xs"
  by (induction xs rule: firstSeen.induct) auto

lemma distinct_firstSeen: "distinct (firstSeen xs)"
  by (induction xs rule: firstSeen.induct) (auto simp: set_firstSeen)

lemma pushServiceUuids_firstSeen:
  "pushServiceUuids acc ys = acc @ firstSeen (filter (\<lambda>y. y \<notin> set acc) ys)"
proof (induction ys arbitrary: acc)
  case Nil
  then show ?case by simp
next
  case (Cons y ys)
  show ?case
  proof (cases "y \<in> set acc")
    case True
    with Cons.IH [of acc] show ?thesis by simp
  next
    case False
    have "(\<lambda>z. z \<notin> set (acc @ [y])) = (\<lambda>z. z \<noteq> y \<and> z \<notin> set acc)" by auto
    with False Cons.IH [of "acc @ [y]"] show ?thesis by (simp add: conj_commute)
  qed
qed

lemma pushServiceUuids_append:
  "pushServiceUuids acc (xs @ ys) = pushServiceUuids (pushServiceUuids acc xs) ys"
  by (induction xs arbitrary: acc) simp_all

lemma received_accumulated:
  assumes "onAdvertisementWatcherReceived st e = Inr (st', evs)"
  shows "accumulated st' u =
           (if deviceUuidOf e = u
            then pushServiceUuids (accumulated st u) (advServiceUuids (advertisement e))
            else accumulated st u)"
  using assms
  by (auto simp: onAdvertisementWatcherReceived_def Let_def accumulated_def mergeAdvertisement_def
      newDeviceRecord_def split: sum.splits option.splits list.splits)

lemma finalState_Cons: "finalState st ((st1, evs) # tr) = finalState st1 tr"
  by (simp add: finalState_def)

lemma receiveAll_accumulated:
  assumes "receiveAll st es = Inr tr"
  shows "accumulated (finalState st tr) u = pushServiceUuids (accumulated st u) (carriedServiceUuids u es)"
  using assms
proof (induction es arbitrary: st tr)
  case Nil
  then show ?case by (simp add: finalState_def carriedServiceUuids_def)
next
  case (Cons e es)
  from Cons.prems obtain st1 evs tr' where
    h: "onAdvertisementWatcherReceived st e = Inr (st1, evs)"
    and r: "receiveAll st1 es = Inr tr'" and t: "tr = (st1, evs) # tr'"
    by (rule receiveAll_Cons)
  have c: "carriedServiceUuids u (e # es) =
      (if deviceUuidOf e = u then advServiceUuids (advertisement e) else []) @ carriedServiceUuids u es"
    by (simp add: carriedServiceUuids_def)
  from Cons.IH [OF r] received_accumulated [OF h, of u] show ?case
    unfolding t finalState_Cons c by (simp add: pushServiceUuids_append)
qed

text \<open>
  C8. For every run of the handler over packets it can read, from a state that has no record
  of the device yet: the service UUIDs accumulated for the device are the service UUIDs
  that the packets of that device carried, each kept once, at its first occurrence.
\<close>

theorem serviceUuids_first_seen_order:
  assumes "list_all txPowerReadable es" and "deviceMap st u = None"
  shows "\<exists>tr. receiveAll st es = Inr tr
           \<and> accumulated (finalState st tr) u = firstSeen (carriedServiceUuids u es)
           \<and> distinct (accumulated (finalState st tr) u)
           \<and> set (accumulated (finalState st tr) u) = set (carriedServiceUuids u es)"
proof -
  from receiveAll_returns [OF assms(1)] obtain tr where tr: "receiveAll st es = Inr tr" by blast
  from assms(2) have "accumulated st u = []" by (simp add: accumulated_def)
  with receiveAll_accumulated [OF tr, of u]
  have "accumulated (finalState st tr) u = firstSeen (carriedServiceUuids u es)"
    by (simp add: pushServiceUuids_firstSeen)
  with tr show ?thesis by (auto simp: distinct_firstSeen set_firstSeen)
qed


theorem serviceUuids_first_seen_order_witness:
  "list_all txPowerReadable [packetA, packetB] \<and> deviceMap NobleBindings_init ''0011223344aa'' = None
   \<and> (\<exists>tr. receiveAll NobleBindings_init [packetA, packetB] = Inr tr
          \<and> accumulated (finalState NobleBindings_init tr) ''0011223344aa'' = [''180d'', ''180f'', ''180a''])"
proof -
  have n: "deviceMap NobleBindings_init ''0011223344aa'' = None" by (simp add: NobleBindings_init_def)
  have c: "firstSeen (carriedServiceUuids ''0011223344aa'' [packetA, packetB]) = [''180d'', ''180f'', ''180a'']"
    by (simp add: carriedServiceUuids_def example_uuid) (simp add: packetA_def packetB_def)
  from serviceUuids_first_seen_order [OF example_readable n] c example_readable n
  show ?thesis by auto
qed








lemma lastOr_Nil: "lastOr d (filter P (map f [])) = d"
  by (simp add: lastOr_def)

















section \<open>Properties of the descriptor resolution\<close>

lemma example_formatUuid:
  "formatUuid ''{0000180D-0000-1000-8000-00805F9B34FB}'' = ''180d''"
  "formatUuid ''{00002A37-0000-1000-8000-00805F9B34FB}'' = ''2a37''"
  "formatUuid ''{00002902-0000-1000-8000-00805F9B34FB}'' = ''2902''"
  by code_simp+

lemma example_selectors:
  "dev_id exampleDevice = 1"
  "dev_getGattServicesAsync exampleDevice mode = Inr (Success, [exampleService])"
  "s_id exampleService = 5"
  "s_uuid exampleService = ''{0000180D-0000-1000-8000-00805F9B34FB}''"
  "s_getCharacteristicsAsync exampleService mode = Inr (Success, [exampleCharacteristic])"
  "c_id exampleCharacteristic = 10"
  "c_uuid exampleCharacteristic = ''{00002A37-0000-1000-8000-00805F9B34FB}''"
  "c_getDescriptorsAsync exampleCharacteristic mode = Inr (Success, [exampleDescriptor])"
  "c_writeCccdAsync exampleCharacteristic CccdNotify = Inr Success"
  "c_writeCccdAsync exampleCharacteristic CccdNone = Inr Unreachable"
  "d_id exampleDescriptor = 100"
  "d_uuid exampleDescriptor = ''{00002902-0000-1000-8000-00805F9B34FB}''"
  "d_writeValueWithResultAsync exampleDescriptor = Inr Unreachable"
  by (simp_all add: exampleDevice_def exampleService_def exampleCharacteristic_def exampleDescriptor_def)

lemma example_connect:
  "connect stateB ''0011223344aa'' (Inr (Some exampleDevice))
     = (stateConnected, [ConnectEvent ''0011223344aa'' None], Resolved ())"
  by (simp add: connect_def stateB_def recordB_def recordA_def stateConnected_def recordConnected_def
      NobleBindings_init_def trackDisposable_def deviceObj_def example_selectors tracked_def rt_init_def)

lemma example_connect_unreachable:
  "connect stateB ''0011223344aa'' (Inr (Some unreachableDevice))
     = (stateUnreachable, [ConnectEvent ''0011223344aa'' None], Resolved ())"
  by (simp add: connect_def stateB_def recordB_def recordA_def stateUnreachable_def
      NobleBindings_init_def trackDisposable_def deviceObj_def unreachableDevice_def tracked_def
      rt_init_def)

lemma example_service:
  "getCachedServiceAsync stateConnected ''0011223344aa'' ''180d'' =
     (stateConnected
        \<lparr>deviceMap := [''0011223344aa'' \<mapsto> recordConnected\<lparr>serviceMap := [''180d'' \<mapsto> exampleService]\<rparr>],
         rt := rt stateResolved,
         transportLog := [GetGattServices 1 Cached]\<rparr>,
      Resolved exampleService)"
  by (simp add: getCachedServiceAsync_def stateConnected_def recordConnected_def recordB_def recordA_def
      example_selectors logCall_def checkCommunicationResult_def serviceObj_def trackDisposable_def
      tracked_def rt_init_def example_formatUuid updateRecord_def stateResolved_def)

lemma example_characteristic:
  "getCachedCharacteristicAsync stateConnected ''0011223344aa'' ''180d'' ''2a37'' =
     (stateResolved, Resolved exampleCharacteristic)"
  unfolding getCachedCharacteristicAsync_def example_service
  by (simp add: stateConnected_def recordConnected_def recordB_def recordA_def
      example_selectors logCall_def checkCommunicationResult_def
      example_formatUuid updateRecord_def stateResolved_def recordResolved_def)

lemma characteristic_unbound: "readIdentifier descriptorCallbackScope ''service'' v ''characteristic''
    = Inl (ReferenceError ''characteristic is not defined'')"
  by (simp add: readIdentifier_def descriptorCallbackScope_def moduleScope_def)

lemma withoutResponse_unbound: "readIdentifier writeValueScope ''withoutResponse'' v ''withoutResponse''
    = Inl (ReferenceError ''withoutResponse is not defined'')"
  by (simp add: readIdentifier_def writeValueScope_def moduleScope_def)

lemma withoutResponse_bound: "readIdentifier writeScope ''withoutResponse'' v ''withoutResponse'' = Inr v"
  by (simp add: readIdentifier_def writeScope_def moduleScope_def)

lemma getCachedDescriptorAsync_uncached:
  assumes "deviceMap st d = Some r" and "descriptorMap r (s @ ''/'' @ c @ ''/'' @ dd) = None"
  shows "snd (getCachedDescriptorAsync st d s c dd) \<noteq> Resolved x"
  using assms unfolding getCachedDescriptorAsync_def characteristic_unbound
  by (simp split: prod.splits outcome.splits)

text \<open>
  C3 at a connected device whose service, characteristic and descriptor all exist, with
  nothing cached yet: the characteristic is resolved, then the callback raises a
  \<^verbatim>\<open>ReferenceError\<close>; the descriptors are never queried, the descriptor cache stays empty and
  the promise is rejected, although the descriptor asked for is there.
\<close>

theorem getCachedDescriptorAsync_reference_error:
  "getCachedDescriptorAsync stateConnected ''0011223344aa'' ''180d'' ''2a37'' ''2902''
     = (stateResolved, Rejected (ReferenceError ''characteristic is not defined''))
   \<and> descriptorMap recordResolved = Map.empty
   \<and> transportLog stateResolved = [GetGattServices 1 Cached, GetCharacteristics 5 Cached]
   \<and> find (\<lambda>d. formatUuid (d_uuid d) = ''2902'') [exampleDescriptor] = Some exampleDescriptor"
proof -
  have "getCachedDescriptorAsync stateConnected ''0011223344aa'' ''180d'' ''2a37'' ''2902''
     = (stateResolved, Rejected (ReferenceError ''characteristic is not defined''))"
    unfolding getCachedDescriptorAsync_def example_characteristic characteristic_unbound
    by (simp add: stateConnected_def recordConnected_def recordB_def recordA_def)
  then show ?thesis
    by (simp add: recordResolved_def recordConnected_def recordB_def recordA_def stateResolved_def
        example_selectors example_formatUuid)
qed


section \<open>Properties of \<^verbatim>\<open>writeValue\<close>\<close>

lemma writeCatch_writeValue:
  "writeCatch writeValueScope flag failed st ex
     = (st, [], Rejected (ReferenceError ''withoutResponse is not defined''))"
  by (simp add: writeCatch_def withoutResponse_unbound)

lemma writeCatch_write:
  "writeCatch writeScope flag failed st ex
     = (if \<not> flag then (st, [failed ex], Resolved ()) else (st, [], Resolved ()))"
  by (simp add: writeCatch_def withoutResponse_bound)

lemma writeValue_events:
  "fst (snd (writeValue st d s c dd bytes)) = []
   \<or> fst (snd (writeValue st d s c dd bytes)) = [WriteValueEvent d s c dd None]"
  unfolding writeValue_def writeCatch_writeValue Let_def
  by (simp split: prod.splits outcome.splits sum.splits option.splits)

lemma example_unreachable:
  "getCachedCharacteristicAsync stateUnreachable ''0011223344aa'' ''180d'' ''2a37''
     = (stateUnreachable\<lparr>transportLog := [GetGattServices 2 Cached]\<rparr>,
        Rejected (Error ''Device unreachable: 0011223344aa''))"
  by (simp add: getCachedCharacteristicAsync_def getCachedServiceAsync_def stateUnreachable_def
      recordB_def recordA_def unreachableDevice_def logCall_def checkCommunicationResult_def)

lemma write_reports_failure:
  "write' stateUnreachable ''0011223344aa'' ''180d'' ''2a37'' [1, 0] False
     = (stateUnreachable\<lparr>transportLog := [GetGattServices 2 Cached]\<rparr>,
        [WriteEvent ''0011223344aa'' ''180d'' ''2a37'' (Some (Error ''Device unreachable: 0011223344aa''))],
        Resolved ())"
  unfolding write'_def example_unreachable writeCatch_write by simp

text \<open>
  C10 at a connected device that the transport reports unreachable, and at a state whose
  descriptor is cached and whose transport rejects the write: in both, \<open>writeValue\<close> emits no
  event at all, and its chain of promises ends rejected with the \<^verbatim>\<open>ReferenceError\<close> raised by
  the handler that should have reported the failure.
\<close>

theorem writeValue_failure_not_reported:
  "writeValue stateUnreachable ''0011223344aa'' ''180d'' ''2a37'' ''2902'' [1, 0]
     = (stateUnreachable\<lparr>transportLog := [GetGattServices 2 Cached]\<rparr>, [],
        Rejected (ReferenceError ''withoutResponse is not defined''))
   \<and> d_writeValueWithResultAsync exampleDescriptor = Inr Unreachable
   \<and> writeValue stateDescriptorCached ''0011223344aa'' ''180d'' ''2a37'' ''2902'' [1, 0]
     = (logCall (WriteDescriptorValue 100 [1, 0]) stateDescriptorCached, [],
        Rejected (ReferenceError ''withoutResponse is not defined''))"
proof -
  have d: "getCachedDescriptorAsync stateUnreachable ''0011223344aa'' ''180d'' ''2a37'' ''2902''
     = (stateUnreachable\<lparr>transportLog := [GetGattServices 2 Cached]\<rparr>,
        Rejected (Error ''Device unreachable: 0011223344aa''))"
    unfolding getCachedDescriptorAsync_def example_unreachable
    by (simp add: stateUnreachable_def recordB_def recordA_def)
  have 1: "writeValue stateUnreachable ''0011223344aa'' ''180d'' ''2a37'' ''2902'' [1, 0]
     = (stateUnreachable\<lparr>transportLog := [GetGattServices 2 Cached]\<rparr>, [],
        Rejected (ReferenceError ''withoutResponse is not defined''))"
    unfolding writeValue_def d writeCatch_writeValue by simp
  have c: "getCachedDescriptorAsync stateDescriptorCached ''0011223344aa'' ''180d'' ''2a37'' ''2902''
     = (stateDescriptorCached, Resolved exampleDescriptor)"
    by (simp add: getCachedDescriptorAsync_def stateDescriptorCached_def)
  have 2: "writeValue stateDescriptorCached ''0011223344aa'' ''180d'' ''2a37'' ''2902'' [1, 0]
     = (logCall (WriteDescriptorValue 100 [1, 0]) stateDescriptorCached, [],
        Rejected (ReferenceError ''withoutResponse is not defined''))"
    unfolding writeValue_def c writeCatch_writeValue
    by (simp add: example_selectors checkCommunicationResult_def)
  from 1 2 show ?thesis by (simp add: example_selectors)
qed


section \<open>Properties of \<^verbatim>\<open>notify\<close>\<close>

lemma updateRecord_listenerMap: "listenerMap (updateRecord d f st) = listenerMap st"
  by (simp add: updateRecord_def split: option.splits)

lemma getCachedServiceAsync_listenerMap:
  "listenerMap (fst (getCachedServiceAsync st d s)) = listenerMap st"
  unfolding getCachedServiceAsync_def Let_def
  by (simp add: logCall_def updateRecord_listenerMap split: option.splits sum.splits prod.splits)

lemma getCachedCharacteristicAsync_listenerMap:
  "listenerMap (fst (getCachedCharacteristicAsync st d s c)) = listenerMap st"
proof (cases "deviceMap st d")
  case None
  then show ?thesis by (simp add: getCachedCharacteristicAsync_def)
next
  case (Some r)
  note rec = this
  show ?thesis
  proof (cases "characteristicMap r (s @ ''/'' @ c)")
    case (Some ch)
    with rec show ?thesis by (simp add: getCachedCharacteristicAsync_def)
  next
    case None
    obtain st0 o0 where g: "getCachedServiceAsync st d s = (st0, o0)"
      by (cases "getCachedServiceAsync st d s")
    with getCachedServiceAsync_listenerMap [of st d s]
    have l0: "listenerMap st0 = listenerMap st" by simp
    show ?thesis
    proof (cases o0)
      case (Threw ex)
      with rec None g l0 show ?thesis by (simp add: getCachedCharacteristicAsync_def)
    next
      case (Rejected ex)
      with rec None g l0 show ?thesis by (simp add: getCachedCharacteristicAsync_def)
    next
      case (Resolved service)
      with rec None g l0 show ?thesis
        by (simp add: getCachedCharacteristicAsync_def logCall_def updateRecord_listenerMap Let_def
            split: sum.splits prod.splits option.splits)
    qed
  qed
qed

lemma example_subscribe:
  "notify stateConnected ''0011223344aa'' ''180d'' ''2a37'' True
     = (stateSubscribed, [NotifyEvent ''0011223344aa'' ''180d'' ''2a37'' (Inr True)], Resolved ())"
  unfolding notify_def example_characteristic
  by (simp add: stateResolved_def stateSubscribed_def example_selectors logCall_def
      checkCommunicationResult_def keepAlive_def rt_init_def)

lemma example_cached:
  "getCachedCharacteristicAsync stateSubscribed ''0011223344aa'' ''180d'' ''2a37''
     = (stateSubscribed, Resolved exampleCharacteristic)"
  by (simp add: getCachedCharacteristicAsync_def stateSubscribed_def stateResolved_def
      recordResolved_def Let_def)

text \<open>
  C4, as the code has it. When the characteristic resolves and the write of the client
  configuration descriptor fails, \<open>notify\<close> reports the error in its event, and afterwards
  the subscription map has no entry for the key: a failed enable never stored one, and a
  disable deletes the entry before it writes.
\<close>

theorem notify_failed_write_leaves_no_entry:
  assumes "getCachedCharacteristicAsync st d s c = (st1, Resolved ch)"
    and "cccdWriteFailure d ch (if enable then CccdNotify else CccdNone) = Some ex"
    and "listenerMap st (listenerKeyOf d s c) = (if enable then None else Some l)"
  shows "\<exists>st'. notify st d s c enable = (st', [NotifyEvent d s c (Inl ex)], Resolved ())
             \<and> listenerMap st' (listenerKeyOf d s c) = None"
proof -
  from getCachedCharacteristicAsync_listenerMap [of st d s c] assms(1)
  have lm: "listenerMap st1 = listenerMap st" by simp
  show ?thesis
  proof (cases enable)
    case True
    with assms(2,3) lm show ?thesis
      unfolding notify_def assms(1) Let_def
      by (auto simp: notifyCatch_def cccdWriteFailure_def logCall_def listenerKeyOf_def
          split: sum.splits option.splits)
  next
    case False
    with assms(2,3) lm show ?thesis
      unfolding notify_def assms(1) Let_def
      by (auto simp: notifyCatch_def cccdWriteFailure_def logCall_def listenerKeyOf_def
          split: sum.splits option.splits)
  qed
qed

theorem notify_failed_write_leaves_no_entry_witness:
  "getCachedCharacteristicAsync stateSubscribed ''0011223344aa'' ''180d'' ''2a37''
     = (stateSubscribed, Resolved exampleCharacteristic)
   \<and> cccdWriteFailure ''0011223344aa'' exampleCharacteristic CccdNone
       = Some (Error ''Device unreachable: 0011223344aa'')
   \<and> listenerMap stateSubscribed (listenerKeyOf ''0011223344aa'' ''180d'' ''2a37'')
       = Some (ValueChangedListener ''0011223344aa'' ''180d'' ''2a37'')
   \<and> (\<exists>st'. notify stateSubscribed ''0011223344aa'' ''180d'' ''2a37'' False
              = (st', [NotifyEvent ''0011223344aa'' ''180d'' ''2a37''
                         (Inl (Error ''Device unreachable: 0011223344aa''))], Resolved ())
            \<and> listenerMap st' (listenerKeyOf ''0011223344aa'' ''180d'' ''2a37'') = None)"
proof -
  have f: "cccdWriteFailure ''0011223344aa'' exampleCharacteristic (if False then CccdNotify else CccdNone)
       = Some (Error ''Device unreachable: 0011223344aa'')"
    by (simp add: cccdWriteFailure_def example_selectors checkCommunicationResult_def)
  have l: "listenerMap stateSubscribed (listenerKeyOf ''0011223344aa'' ''180d'' ''2a37'')
       = (if False then None else Some (ValueChangedListener ''0011223344aa'' ''180d'' ''2a37''))"
    by (simp add: stateSubscribed_def listenerKeyOf_def)
  from notify_failed_write_leaves_no_entry [OF example_cached f l] example_cached f l
  show ?thesis by simp
qed

text \<open>C4 as stated fails for a subscribed characteristic whose disable is answered with
  \<open>Unreachable\<close>: the error is reported, and the entry is gone.\<close>

theorem notify_failed_disable_counterexample:
  "listenerMap stateSubscribed ''0011223344aa/180d/2a37''
     = Some (ValueChangedListener ''0011223344aa'' ''180d'' ''2a37'')
   \<and> fst (snd (notify stateSubscribed ''0011223344aa'' ''180d'' ''2a37'' False))
       = [NotifyEvent ''0011223344aa'' ''180d'' ''2a37'' (Inl (Error ''Device unreachable: 0011223344aa''))]
   \<and> listenerMap (fst (notify stateSubscribed ''0011223344aa'' ''180d'' ''2a37'' False))
        ''0011223344aa/180d/2a37'' = None"
  unfolding notify_def example_cached
  by (simp add: stateSubscribed_def example_selectors logCall_def checkCommunicationResult_def
      notifyCatch_def)


end
